theory Spec2Isabelle
  imports Complex_Main "HOL-Library.Sublist" "HOL-Library.Monad_Syntax"
    "HOL-Library.Char_ord" "HOL-Library.List_Lexorder"
begin

section \<open>Text primitives of the Python runtime\<close>

text \<open>
  A Python \<open>str\<close> is modelled as a \<open>string\<close>, one \<open>char\<close> per code point. The character
  classes below are Python's on the ASCII range: \<open>str.lower\<close>, \<open>str.upper\<close>, the regex
  classes \<open>\w\<close>, \<open>\s\<close>, \<open>\d\<close>, and the whitespace of \<open>str.split()\<close> and \<open>str.strip()\<close>
  (which, like \<open>\s\<close>, contains the separators 28 to 31). A character above 127 is taken to be
  an uncased symbol that is neither a word character nor whitespace, where Python counts
  the letters among them as word characters and U+0085 and U+00A0 as whitespace; the
  bullet glyph U+2022 has no representation in this alphabet. The properties below are
  about texts of ASCII characters. Python floats are modelled by exact rationals.
\<close>

definition is_upper :: "char \<Rightarrow> bool" where
  "is_upper c = (65 \<le> (of_char c :: nat) \<and> (of_char c :: nat) \<le> 90)"

definition is_lower :: "char \<Rightarrow> bool" where
  "is_lower c = (97 \<le> (of_char c :: nat) \<and> (of_char c :: nat) \<le> 122)"

definition is_digit :: "char \<Rightarrow> bool" where
  "is_digit c = (48 \<le> (of_char c :: nat) \<and> (of_char c :: nat) \<le> 57)"

definition is_alpha :: "char \<Rightarrow> bool" where
  "is_alpha c = (is_upper c \<or> is_lower c)"

definition is_word :: "char \<Rightarrow> bool" where
  "is_word c = (is_alpha c \<or> is_digit c \<or> c = CHR ''_'')"

definition is_space :: "char \<Rightarrow> bool" where
  "is_space c = ((of_char c :: nat) \<in> {9, 10, 11, 12, 13, 28, 29, 30, 31, 32})"

definition lower_char :: "char \<Rightarrow> char" where
  "lower_char c = (if is_upper c then char_of (of_char c + 32 :: nat) else c)"

definition upper_char :: "char \<Rightarrow> char" where
  "upper_char c = (if is_lower c then char_of (of_char c - 32 :: nat) else c)"

definition py_lower :: "string \<Rightarrow> string" where
  "py_lower s = map lower_char s"

definition py_strip :: "string \<Rightarrow> string" where
  "py_strip s = rev (dropWhile is_space (rev (dropWhile is_space s)))"

text \<open>\<open>str.capitalize()\<close>: first character upper-cased, the rest lower-cased.\<close>

definition py_capitalize :: "string \<Rightarrow> string" where
  "py_capitalize s = (case s of [] \<Rightarrow> [] | c # cs \<Rightarrow> upper_char c # map lower_char cs)"

text \<open>
  \<open>str.title()\<close>: a cased character is upper-cased when the character before it is not
  cased and lower-cased otherwise.
\<close>

fun py_title_from :: "bool \<Rightarrow> string \<Rightarrow> string" where
  "py_title_from prev_cased [] = []"
| "py_title_from prev_cased (c # cs) =
     (if is_alpha c
      then (if prev_cased then lower_char c else upper_char c) # py_title_from True cs
      else c # py_title_from False cs)"

definition py_title :: "string \<Rightarrow> string" where
  "py_title s = py_title_from False s"

text \<open>\<open>str.split()\<close> with no argument: the maximal runs of non-whitespace.\<close>

fun py_split_acc :: "string \<Rightarrow> string \<Rightarrow> string list" where
  "py_split_acc w [] = (if w = [] then [] else [rev w])"
| "py_split_acc w (c # cs) =
     (if is_space c
      then (if w = [] then py_split_acc [] cs else rev w # py_split_acc [] cs)
      else py_split_acc (c # w) cs)"

definition py_split :: "string \<Rightarrow> string list" where
  "py_split s = py_split_acc [] s"

text \<open>\<open>str.split(sep)\<close> for a one-character separator: always at least one piece.\<close>

fun split_on_acc :: "char \<Rightarrow> string \<Rightarrow> string \<Rightarrow> string list" where
  "split_on_acc d w [] = [rev w]"
| "split_on_acc d w (c # cs) =
     (if c = d then rev w # split_on_acc d [] cs else split_on_acc d (c # w) cs)"

definition split_lines :: "string \<Rightarrow> string list" where
  "split_lines s = split_on_acc CHR ''\<newline>'' [] s"

fun py_join :: "string \<Rightarrow> string list \<Rightarrow> string" where
  "py_join sep [] = []"
| "py_join sep [x] = x"
| "py_join sep (x # y # ys) = x @ sep @ py_join sep (y # ys)"

text \<open>The operator \<open>p in s\<close> on strings.\<close>

fun is_substr :: "string \<Rightarrow> string \<Rightarrow> bool" where
  "is_substr p [] = (p = [])"
| "is_substr p (c # cs) = (prefix p (c # cs) \<or> is_substr p cs)"

text \<open>
  \<open>s.replace(p, "")\<close>, and \<open>re.sub(p, '', s)\<close> for a pattern \<open>p\<close> of literal characters:
  every occurrence of \<open>p\<close> is deleted, scanning from the left without overlap.
\<close>

function remove_all :: "string \<Rightarrow> string \<Rightarrow> string" where
  "remove_all p [] = []"
| "remove_all p (c # cs) =
     (if p \<noteq> [] \<and> prefix p (c # cs) then remove_all p (drop (length p) (c # cs))
      else c # remove_all p cs)"
  by pat_completeness auto
termination
  by (relation "measure (\<lambda>(p, s). length s)") auto

text \<open>Decimal rendering of a count, as an f-string does.\<close>

definition digit_char :: "nat \<Rightarrow> char" where
  "digit_char d = char_of (48 + d)"

function show_nat :: "nat \<Rightarrow> string" where
  "show_nat n = (if n < 10 then [digit_char n] else show_nat (n div 10) @ [digit_char (n mod 10)])"
  by pat_completeness auto
termination
  by (relation "measure id") auto

declare show_nat.simps [simp del]

section \<open>The fragment of Python's \<open>re\<close> used by the sources\<close>

text \<open>
  Python's matcher backtracks: at a position it tries the alternatives of a pattern in
  order and the repetitions greedily (or lazily for \<open>*?\<close>). \<open>rx_ends\<close> lists, in that
  order of preference, the lengths of all the matches of a pattern that start at the
  current position; the head of the list is the match Python reports. The second
  argument is the \<open>IGNORECASE\<close> flag, the fourth the character before the position
  (\<open>None\<close> at the start of the text), which \<open>\b\<close> and \<open>^\<close> inspect.
\<close>

datatype rx =
    Lit string
  | Cls "char \<Rightarrow> bool"
  | Seq rx rx
  | Alt rx rx
  | Rep nat "char \<Rightarrow> bool"
  | LazyAny
  | WordB
  | Ahead rx
  | Eos
  | Bos

definition lit_at :: "bool \<Rightarrow> string \<Rightarrow> string \<Rightarrow> bool" where
  "lit_at ci w s =
     (if ci then prefix (py_lower w) (py_lower (take (length w) s)) else prefix w s)"

text \<open>\<open>\b\<close>: exactly one of the two neighbouring characters is a word character.\<close>

definition word_before :: "char option \<Rightarrow> bool" where
  "word_before p = (case p of None \<Rightarrow> False | Some c \<Rightarrow> is_word c)"

definition word_after :: "string \<Rightarrow> bool" where
  "word_after s = (case s of [] \<Rightarrow> False | c # _ \<Rightarrow> is_word c)"

definition prev_after :: "char option \<Rightarrow> string \<Rightarrow> char option" where
  "prev_after p w = (if w = [] then p else Some (last w))"

fun rx_ends :: "bool \<Rightarrow> rx \<Rightarrow> char option \<Rightarrow> string \<Rightarrow> nat list" where
  "rx_ends ci (Lit w) p s = (if lit_at ci w s then [length w] else [])"
| "rx_ends ci (Cls f) p s = (case s of [] \<Rightarrow> [] | c # _ \<Rightarrow> if f c then [1] else [])"
| "rx_ends ci (Seq a b) p s =
     concat (map (\<lambda>k. map (\<lambda>j. k + j) (rx_ends ci b (prev_after p (take k s)) (drop k s)))
                 (rx_ends ci a p s))"
| "rx_ends ci (Alt a b) p s = rx_ends ci a p s @ rx_ends ci b p s"
| "rx_ends ci (Rep n f) p s =
     (let k = length (takeWhile f s) in if n \<le> k then rev [n..<Suc k] else [])"
| "rx_ends ci LazyAny p s = [0..<Suc (length s)]"
| "rx_ends ci WordB p s = (if word_before p \<noteq> word_after s then [0] else [])"
| "rx_ends ci (Ahead a) p s = (if rx_ends ci a p s = [] then [] else [0])"
| "rx_ends ci Eos p s = (if s = [] \<or> s = ''\<newline>'' then [0] else [])"
| "rx_ends ci Bos p s = (if p = None then [0] else [])"

text \<open>
  \<open>Rep n f\<close> is \<open>[f]{n,}\<close> (so \<open>[f]*\<close> and \<open>[f]+\<close> are \<open>Rep 0 f\<close> and \<open>Rep 1 f\<close>), \<open>LazyAny\<close> is
  \<open>.*?\<close> under \<open>DOTALL\<close>, \<open>Ahead a\<close> is \<open>(?=a)\<close>, \<open>Eos\<close> is \<open>$\<close> and \<open>Bos\<close> is \<open>^\<close> (both without
  \<open>MULTILINE\<close>). An alternation of literals:
\<close>

fun alts :: "string list \<Rightarrow> rx" where
  "alts [] = Cls (\<lambda>c. False)"
| "alts [w] = Lit w"
| "alts (w # v # ws) = Alt (Lit w) (alts (v # ws))"

text \<open>\<open>re.match\<close>: a match at the start of the text. \<open>re.search\<close>: the leftmost match.\<close>

definition rx_match :: "bool \<Rightarrow> rx \<Rightarrow> string \<Rightarrow> bool" where
  "rx_match ci r s = (rx_ends ci r None s \<noteq> [])"

fun rx_search_from :: "bool \<Rightarrow> rx \<Rightarrow> char option \<Rightarrow> string \<Rightarrow> string option" where
  "rx_search_from ci r p [] =
     (case rx_ends ci r p [] of [] \<Rightarrow> None | k # _ \<Rightarrow> Some [])"
| "rx_search_from ci r p (c # cs) =
     (case rx_ends ci r p (c # cs) of
        [] \<Rightarrow> rx_search_from ci r (Some c) cs
      | k # _ \<Rightarrow> Some (take k (c # cs)))"

definition rx_search :: "bool \<Rightarrow> rx \<Rightarrow> string \<Rightarrow> string option" where
  "rx_search ci r s = rx_search_from ci r None s"

text \<open>
  \<open>re.findall\<close> and \<open>re.finditer\<close>: the matches from left to right, each search resuming
  where the previous match ended. \<open>re.sub\<close> replaces these matches, \<open>re.split\<close> returns
  the pieces between them. No pattern of the sources matches the empty string; an
  empty match here advances by one character.
\<close>

function rx_findall_from :: "bool \<Rightarrow> rx \<Rightarrow> char option \<Rightarrow> string \<Rightarrow> string list" where
  "rx_findall_from ci r p [] = (if rx_ends ci r p [] = [] then [] else [[]])"
| "rx_findall_from ci r p (c # cs) =
     (case rx_ends ci r p (c # cs) of
        [] \<Rightarrow> rx_findall_from ci r (Some c) cs
      | k # _ \<Rightarrow>
          if k = 0 then [] # rx_findall_from ci r (Some c) cs
          else take k (c # cs) #
               rx_findall_from ci r (prev_after (Some c) (take k (c # cs))) (drop k (c # cs)))"
  by pat_completeness auto
termination
  by (relation "measure (\<lambda>(ci, r, p, s). length s)") auto

definition rx_findall :: "bool \<Rightarrow> rx \<Rightarrow> string \<Rightarrow> string list" where
  "rx_findall ci r s = rx_findall_from ci r None s"

function rx_sub_from :: "bool \<Rightarrow> rx \<Rightarrow> string \<Rightarrow> char option \<Rightarrow> string \<Rightarrow> string" where
  "rx_sub_from ci r repl p [] = []"
| "rx_sub_from ci r repl p (c # cs) =
     (case rx_ends ci r p (c # cs) of
        [] \<Rightarrow> c # rx_sub_from ci r repl (Some c) cs
      | k # _ \<Rightarrow>
          if k = 0 then c # rx_sub_from ci r repl (Some c) cs
          else repl @
               rx_sub_from ci r repl (prev_after (Some c) (take k (c # cs))) (drop k (c # cs)))"
  by pat_completeness auto
termination
  by (relation "measure (\<lambda>(ci, r, repl, p, s). length s)") auto

definition rx_sub :: "bool \<Rightarrow> rx \<Rightarrow> string \<Rightarrow> string \<Rightarrow> string" where
  "rx_sub ci r repl s = rx_sub_from ci r repl None s"

function rx_split_from :: "bool \<Rightarrow> rx \<Rightarrow> string \<Rightarrow> char option \<Rightarrow> string \<Rightarrow> string list" where
  "rx_split_from ci r w p [] = [rev w]"
| "rx_split_from ci r w p (c # cs) =
     (case rx_ends ci r p (c # cs) of
        [] \<Rightarrow> rx_split_from ci r (c # w) (Some c) cs
      | k # _ \<Rightarrow>
          if k = 0 then rx_split_from ci r (c # w) (Some c) cs
          else rev w #
               rx_split_from ci r [] (prev_after (Some c) (take k (c # cs))) (drop k (c # cs)))"
  by pat_completeness auto
termination
  by (relation "measure (\<lambda>(ci, r, w, p, s). length s)") auto

definition rx_split :: "bool \<Rightarrow> rx \<Rightarrow> string \<Rightarrow> string list" where
  "rx_split ci r s = rx_split_from ci r [] None s"


section \<open>The data model\<close>

text \<open>
  The parsed resume is a dictionary with the keys below; each entry of its lists is a
  dictionary again. The optimizer adds the key \<open>regional_format\<close>.
\<close>

record job_entry =
  title :: string
  company :: string
  dates :: "string list"
  description :: "string list"

record education_entry =
  edu_degree :: string
  edu_institution :: string
  edu_dates :: "string list"
  edu_details :: "string list"

record project_entry =
  proj_name :: string
  proj_description :: "string list"

record personal =
  pi_name :: "string option"
  pi_email :: "string option"
  pi_phone :: "string option"

record profile =
  raw_text :: string
  skills :: "string list"
  experience :: "job_entry list"
  education :: "education_entry list"
  projects :: "project_entry list"
  personal_info :: personal
  summary :: string

section \<open>The optimizer (\<open>optimizer.py\<close>)\<close>

definition action_verbs :: "string list" where
  "action_verbs =
    [''accelerated'', ''achieved'', ''administered'', ''advanced'', ''advised'', ''allocated'',
     ''analyzed'', ''assembled'', ''assessed'', ''assisted'', ''attained'', ''authored'',
     ''balanced'', ''boosted'', ''built'', ''calculated'', ''catalyzed'', ''chaired'',
     ''changed'', ''coached'', ''collaborated'', ''compiled'', ''completed'', ''conceived'',
     ''conducted'', ''consolidated'', ''constructed'', ''consulted'', ''controlled'',
     ''coordinated'', ''created'', ''decreased'', ''delivered'', ''designed'', ''developed'',
     ''devised'', ''directed'', ''drove'', ''edited'', ''eliminated'', ''engineered'',
     ''enhanced'', ''established'', ''evaluated'', ''executed'', ''expanded'', ''facilitated'',
     ''forecasted'', ''formed'', ''founded'', ''generated'', ''guided'', ''headed'',
     ''implemented'', ''improved'', ''increased'', ''influenced'', ''initiated'', ''innovated'',
     ''installed'', ''instituted'', ''integrated'', ''introduced'', ''invented'', ''launched'',
     ''led'', ''managed'', ''marketed'', ''mastered'', ''mediated'', ''mentored'',
     ''modernized'', ''monitored'', ''motivated'', ''negotiated'', ''operated'', ''optimized'',
     ''orchestrated'', ''organized'', ''originated'', ''overhauled'', ''oversaw'', ''performed'',
     ''pioneered'', ''planned'', ''prepared'', ''presented'', ''processed'', ''produced'',
     ''programmed'', ''projected'', ''promoted'', ''proposed'', ''provided'', ''published'',
     ''purchased'', ''recommended'', ''recruited'', ''reduced'', ''regulated'', ''reorganized'',
     ''researched'', ''restructured'', ''revamped'', ''reviewed'', ''revised'', ''saved'',
     ''scheduled'', ''secured'', ''selected'', ''simplified'', ''sold'', ''solved'',
     ''spearheaded'', ''started'', ''streamlined'', ''strengthened'', ''structured'', ''supervised'',
     ''supported'', ''surpassed'', ''targeted'', ''trained'', ''transformed'', ''translated'',
     ''trimmed'', ''unified'', ''upgraded'', ''utilized'', ''validated'', ''verified'',
     ''won'', ''wrote'']"

definition alt_list :: "rx list \<Rightarrow> rx" where
  "alt_list rs = foldr Alt (butlast rs) (last rs)"

definition improvements :: "(rx \<times> string) list" where
  "improvements =
    [(Lit ''responsible for'', []),
     (Lit ''duties included'', []),
     (Lit ''helped with'', []),
     (Lit ''worked on'', []),
     (Lit ''was involved in'', [])]"

definition context_verbs :: "(rx \<times> string) list" where
  "context_verbs =
    [(alts [''manage'', ''lead'', ''supervis''], ''Managed''),
     (alts [''develop'', ''create'', ''build''], ''Developed''),
     (alts [''analyze'', ''research'', ''evaluat''], ''Analyzed''),
     (alts [''improv'', ''optimiz'', ''enhanc''], ''Improved''),
     (alts [''implement'', ''integrat'', ''deploy''], ''Implemented'')]"

text \<open>\<^verbatim>\<open>\d+%|\$\d+|\d+\s*(years|months)|increased|decreased|reduced\<close>\<close>

definition quantifiable_rx :: rx where
  "quantifiable_rx =
     alt_list
      [Seq (Rep 1 is_digit) (Lit ''%''),
       Seq (Lit ''$'') (Rep 1 is_digit),
       Seq (Rep 1 is_digit) (Seq (Rep 0 is_space) (alts [''years'', ''months''])),
       Lit ''increased'', Lit ''decreased'', Lit ''reduced'']"

definition advisory_suffix :: string where
  "advisory_suffix = '' - consider adding quantifiable results''"

definition improve_bullet_point :: "string \<Rightarrow> string" where
  "improve_bullet_point bullet =
     (let original = py_strip (py_lower bullet);
          improved = foldl (\<lambda>s (pat, repl). rx_sub False pat repl s) original improvements;
          improved =
            (if \<not> list_ex (\<lambda>verb. is_substr verb improved) action_verbs
             then (case find (\<lambda>(pat, verb). rx_search False pat improved \<noteq> None) context_verbs of
                     Some (pat, verb) \<Rightarrow> verb @ '' '' @ improved
                   | None \<Rightarrow> ''Managed '' @ improved)
             else improved);
          improved = py_capitalize improved
      in if rx_search False quantifiable_rx improved = None
         then improved @ advisory_suffix
         else improved)"

section \<open>The scorer (\<open>ats_scorer.py\<close>)\<close>

text \<open>
  The division \<open>/\<close> raises \<open>ZeroDivisionError\<close> on a zero divisor; \<open>None\<close> stands for a raised
  exception in every function below that can reach one.
\<close>

definition py_div :: "rat \<Rightarrow> rat \<Rightarrow> rat option" where
  "py_div a b = (if b = 0 then None else Some (a / b))"

text \<open>
  \<open>round(x, 1)\<close>: to the nearest tenth, a tie to the even neighbour. The code rounds the
  float nearest to the exact value, so at an exact tie its result can be the other
  neighbour.
\<close>

definition round_half_even :: "rat \<Rightarrow> int" where
  "round_half_even y =
     (let f = \<lfloor>y\<rfloor>; d = y - of_int f
      in if d < 1 / 2 then f else if 1 / 2 < d then f + 1 else if even f then f else f + 1)"

definition py_round1 :: "rat \<Rightarrow> rat" where
  "py_round1 x = of_int (round_half_even (x * 10)) / 10"

definition weights :: "(string \<times> rat) list" where
  "weights =
    [(''skills_match'', 35 / 100),
     (''keywords'', 25 / 100),
     (''formatting'', 15 / 100),
     (''readability'', 15 / 100),
     (''grammar'', 10 / 100)]"

definition common_action_verbs :: "string list" where
  "common_action_verbs =
    [''managed'', ''developed'', ''implemented'', ''led'', ''created'', ''optimized'']"

definition tech_skills :: "string list" where
  "tech_skills =
    [''python'', ''java'', ''javascript'', ''typescript'', ''c++'', ''c#'', ''go'', ''rust'',
     ''sql'', ''nosql'', ''mongodb'', ''postgresql'', ''mysql'',
     ''react'', ''angular'', ''vue'', ''django'', ''flask'', ''spring'', ''node.js'',
     ''aws'', ''azure'', ''gcp'', ''docker'', ''kubernetes'', ''jenkins'', ''terraform'',
     ''machine learning'', ''ai'', ''data science'', ''big data'', ''tableau'']"

text \<open>
  \<open>_extract_skills_from_text\<close> collects the vocabulary items that occur in the lowered text
  into a set and returns \<open>list(skills)\<close>. The order of that list is unspecified in Python;
  the model keeps the set as a duplicate-free list, and its callers read only its length,
  its emptiness and its elements.
\<close>

definition extract_skills_from_text :: "string \<Rightarrow> string list" where
  "extract_skills_from_text text =
     (let text_lower = py_lower text
      in foldl (\<lambda>skills skill. if is_substr skill text_lower then List.insert skill skills else skills)
           [] tech_skills)"

definition calculate_skills_match :: "string list \<Rightarrow> string \<Rightarrow> rat option" where
  "calculate_skills_match skills_in job_description =
     (if job_description = [] then Some 0
      else
        let job_skills = extract_skills_from_text job_description
        in if job_skills = [] then Some 0
           else do {
             let matched_skills = set (map py_lower skills_in) \<inter> set job_skills;
             match_percentage \<leftarrow> py_div (of_nat (card matched_skills)) (of_nat (length job_skills));
             Some (min (match_percentage * 40) 40)
           })"

text \<open>
  \<^verbatim>\<open>increased by \d+%\<close>, \<^verbatim>\<open>reduced by \d+%\<close>, \<^verbatim>\<open>saved \$\d+\<close>, \<^verbatim>\<open>improved by \d+%\<close>,
  \<^verbatim>\<open>managed \$\d+\<close>
\<close>

definition quant_patterns :: "rx list" where
  "quant_patterns =
    [Seq (Lit ''increased by '') (Seq (Rep 1 is_digit) (Lit ''%'')),
     Seq (Lit ''reduced by '') (Seq (Rep 1 is_digit) (Lit ''%'')),
     Seq (Lit ''saved $'') (Rep 1 is_digit),
     Seq (Lit ''improved by '') (Seq (Rep 1 is_digit) (Lit ''%'')),
     Seq (Lit ''managed $'') (Rep 1 is_digit)]"

definition count_matches :: "rx list \<Rightarrow> string \<Rightarrow> nat" where
  "count_matches patterns text =
     foldl (\<lambda>n pattern. n + length (rx_findall False pattern text)) 0 patterns"

definition calculate_keywords_score :: "string \<Rightarrow> rat option" where
  "calculate_keywords_score text =
     (let text_lower = py_lower text;
          found_verbs = filter (\<lambda>verb. is_substr verb text_lower) common_action_verbs
      in do {
        found_ratio \<leftarrow> py_div (of_nat (length found_verbs)) (of_nat (length common_action_verbs));
        let score = 0 + found_ratio * 10;
        let quant_count = count_matches quant_patterns text_lower;
        let score = score + min (of_nat quant_count * 2) 10;
        Some (min score 20)
      })"

definition required_sections :: "string list" where
  "required_sections = [''experience'', ''education'', ''skills'']"

text \<open>
  \<^verbatim>\<open>^[\<bullet>\-\*]\s\<close>, where \<open>\<bullet>\<close> stands for the glyph U+2022, which no text of the model contains.
\<close>

definition bullet_pattern :: rx where
  "bullet_pattern = Seq Bos (Seq (Cls (\<lambda>c. c = CHR ''-'' \<or> c = CHR ''*'')) (Cls is_space))"

definition bullet_ratio_of :: "string \<Rightarrow> rat option" where
  "bullet_ratio_of text =
     (let lines = split_lines text;
          bullet_lines = filter (\<lambda>line. rx_match False bullet_pattern (py_strip line)) lines
      in py_div (of_nat (length bullet_lines))
           (of_nat (max (length (filter (\<lambda>l. 10 < length (py_strip l)) lines)) 1)))"

definition calculate_formatting_score :: "profile \<Rightarrow> rat option" where
  "calculate_formatting_score parsed_data =
     (let score = 15;
          text = raw_text parsed_data;
          text_lower = py_lower text;
          score = foldl (\<lambda>sc sect. if \<not> is_substr sect text_lower then sc - 2 else sc)
                    score required_sections
      in do {
        bullet_ratio \<leftarrow> bullet_ratio_of text;
        let score = (if bullet_ratio < 3 / 10 then score - 2 else score);
        let word_count = length (py_split text);
        let score = (if word_count < 200 then score - 2
                     else if 800 < word_count then score - 2 else score);
        Some (max score 0)
      })"

text \<open>\<^verbatim>\<open>[.!?]+\<close>\<close>

definition sentence_end :: rx where
  "sentence_end = Rep 1 (\<lambda>c. c \<in> set ''.!?'')"

definition calculate_readability_score :: "string \<Rightarrow> rat option" where
  "calculate_readability_score text =
     (let sentences = rx_split False sentence_end text;
          words = py_split text
      in if length sentences = 0 \<or> length words = 0 then Some 0
         else do {
           avg_sentence_length \<leftarrow> py_div (of_nat (length words)) (of_nat (length sentences));
           Some (if avg_sentence_length \<le> 15 then 15
                 else if avg_sentence_length \<le> 20 then 12
                 else if avg_sentence_length \<le> 25 then 8
                 else 5)
         })"

text \<open>
  \<^verbatim>\<open>\bi\s\<close> and \<^verbatim>\<open>\btheir\s\<close>, each with its message (which the scorer never reads), then
  \<^verbatim>\<open>\b(managed|developed|created|led)\b\<close> and \<^verbatim>\<open>\b(manage|develop|create|lead)\b\<close>.
\<close>

definition lowercase_i :: rx where
  "lowercase_i = Seq WordB (Seq (Lit ''i'') (Cls is_space))"

definition their_token :: rx where
  "their_token = Seq WordB (Seq (Lit ''their'') (Cls is_space))"

definition common_errors :: "(rx \<times> string) list" where
  "common_errors =
    [(lowercase_i, ''Lowercase \"I\" should be capitalized''),
     (their_token, ''Potential their/there/they're error'')]"

definition past_tense_rx :: rx where
  "past_tense_rx = Seq WordB (Seq (alts [''managed'', ''developed'', ''created'', ''led'']) WordB)"

definition present_tense_rx :: rx where
  "present_tense_rx = Seq WordB (Seq (alts [''manage'', ''develop'', ''create'', ''lead'']) WordB)"

definition calculate_grammar_score :: "string \<Rightarrow> rat" where
  "calculate_grammar_score text =
     (let score = 10;
          error_count = count_matches (map fst common_errors) (py_lower text);
          past_tense = length (rx_findall False past_tense_rx (py_lower text));
          present_tense = length (rx_findall False present_tense_rx (py_lower text));
          error_count = (if 0 < past_tense \<and> 0 < present_tense then error_count + 1
                         else error_count);
          score = score - min (of_nat error_count * (1 / 2)) 5
      in max score 0)"

definition get_skills_match_details :: "string list \<Rightarrow> string \<Rightarrow> string list" where
  "get_skills_match_details skills_in job_description =
     (if job_description \<noteq> [] then
        let job_skills = extract_skills_from_text job_description;
            matched_skills = set (map py_lower skills_in) \<inter> set job_skills;
            missing_skills = filter (\<lambda>s. s \<notin> set (map py_lower skills_in)) job_skills;
            details = [''Matched '' @ show_nat (card matched_skills) @ '' out of ''
                         @ show_nat (length job_skills) @ '' required skills'']
        in if missing_skills \<noteq> []
           then details @ [''Missing skills: '' @ py_join '', '' missing_skills]
           else details
      else
        let details = [''Found '' @ show_nat (length skills_in) @ '' skills in resume'']
        in if length skills_in < 10
           then details @ [''Consider adding more relevant skills'']
           else details)"

definition get_keywords_details :: "string \<Rightarrow> string list" where
  "get_keywords_details text =
     (let text_lower = py_lower text;
          found_verbs = filter (\<lambda>verb. is_substr verb text_lower) common_action_verbs;
          details = [''Used '' @ show_nat (length found_verbs) @ '' action verbs''];
          quant_count = count_matches (take 4 quant_patterns) text_lower;
          details = details @ [''Found '' @ show_nat quant_count @ '' quantifiable achievements'']
      in if quant_count < 2
         then details @ [''Add more quantifiable results (e.g., 'increased efficiency by 25%')'']
         else details)"

definition get_formatting_details :: "profile \<Rightarrow> string list option" where
  "get_formatting_details parsed_data =
     (let text = raw_text parsed_data;
          text_lower = py_lower text;
          missing_sections = filter (\<lambda>sect. \<not> is_substr sect text_lower) required_sections;
          details = (if missing_sections \<noteq> []
                     then [''Missing sections: '' @ py_join '', '' missing_sections]
                     else [''All essential sections present''])
      in do {
        bullet_ratio \<leftarrow> bullet_ratio_of text;
        let details = details @
              (if bullet_ratio < 3 / 10
               then [''Consider using more bullet points for readability'']
               else [''Good use of bullet points'']);
        let word_count = length (py_split text);
        Some (details @
              (if 300 \<le> word_count \<and> word_count \<le> 600
               then [''Appropriate resume length'']
               else if word_count < 300
               then [''Resume might be too short - add more details'']
               else [''Resume might be too long - consider condensing'']))
      })"

definition get_readability_details :: "string \<Rightarrow> string list option" where
  "get_readability_details text =
     (let sentences = rx_split False sentence_end text;
          words = py_split text
      in if length sentences = 0 then Some [''Unable to analyze readability'']
         else do {
           avg_sentence_length \<leftarrow> py_div (of_nat (length words)) (of_nat (length sentences));
           Some [if avg_sentence_length \<le> 15 then ''Excellent sentence length''
                 else if avg_sentence_length \<le> 20 then ''Good sentence length''
                 else if avg_sentence_length \<le> 25 then ''Consider shortening some sentences''
                 else ''Some sentences are too long - break them up'']
         })"

definition get_grammar_details :: "string \<Rightarrow> string list" where
  "get_grammar_details text =
     (let details = [''Basic grammar check passed'']
      in if rx_search False lowercase_i text \<noteq> None
         then details @ [''Found lowercase 'I' - should be capitalized'']
         else details)"

record category =
  score :: rat
  max_score :: rat
  details :: "string list"

record score_result =
  total_score :: rat
  breakdown :: "(string \<times> category) list"

text \<open>
  The weighted sum of \<open>calculate_score\<close>: the generator reads \<open>self.weights[category]\<close> only
  for a category that is a key of \<open>self.weights\<close>.
\<close>

fun weighted_sum :: "(string \<times> rat) list \<Rightarrow> rat option" where
  "weighted_sum [] = Some 0"
| "weighted_sum ((cat, sc) # rest) =
     (if map_of weights cat \<noteq> None
      then do { w \<leftarrow> map_of weights cat; t \<leftarrow> weighted_sum rest; Some (sc * w + t) }
      else weighted_sum rest)"

definition calculate_score :: "profile \<Rightarrow> string \<Rightarrow> score_result option" where
  "calculate_score parsed_data job_description = do {
     skills_match \<leftarrow>
       (if job_description \<noteq> []
        then calculate_skills_match (skills parsed_data) job_description
        else do {
          skills_score \<leftarrow> py_div (of_nat (length (skills parsed_data))) 20;
          Some (min (skills_score * 40) 40)
        });
     keywords \<leftarrow> calculate_keywords_score (raw_text parsed_data);
     formatting \<leftarrow> calculate_formatting_score parsed_data;
     readability \<leftarrow> calculate_readability_score (raw_text parsed_data);
     let grammar = calculate_grammar_score (raw_text parsed_data);
     weighted \<leftarrow> weighted_sum
       [(''skills_match'', skills_match), (''keywords'', keywords), (''formatting'', formatting),
        (''readability'', readability), (''grammar'', grammar)];
     normalised \<leftarrow> py_div weighted (sum_list (map snd weights));
     let total = normalised * 100;
     formatting_details \<leftarrow> get_formatting_details parsed_data;
     readability_details \<leftarrow> get_readability_details (raw_text parsed_data);
     Some \<lparr>total_score = py_round1 total,
           breakdown =
             [(''Skills Match'',
                 \<lparr>score = py_round1 skills_match,
                  max_score = (if job_description \<noteq> [] then 40 else 40),
                  details = get_skills_match_details (skills parsed_data) job_description\<rparr>),
              (''Keywords'',
                 \<lparr>score = py_round1 keywords, max_score = 20,
                  details = get_keywords_details (raw_text parsed_data)\<rparr>),
              (''Formatting'',
                 \<lparr>score = py_round1 formatting, max_score = 15,
                  details = formatting_details\<rparr>),
              (''Readability'',
                 \<lparr>score = py_round1 readability, max_score = 15,
                  details = readability_details\<rparr>),
              (''Grammar'',
                 \<lparr>score = py_round1 grammar, max_score = 10,
                  details = get_grammar_details (raw_text parsed_data)\<rparr>)]\<rparr>
   }"

definition empty_profile :: profile where
  "empty_profile =
     \<lparr>raw_text = [], skills = [], experience = [], education = [], projects = [],
      personal_info = \<lparr>pi_name = None, pi_email = None, pi_phone = None\<rparr>, summary = []\<rparr>"

text \<open>
  The tense heuristic of \<open>_calculate_grammar_score\<close>: both the past-tense and the
  present-tense sample have a match in the lowered text.
\<close>

definition tense_mixed :: "string \<Rightarrow> bool" where
  "tense_mixed t =
     (rx_findall False past_tense_rx (py_lower t) \<noteq> []
      \<and> rx_findall False present_tense_rx (py_lower t) \<noteq> [])"

text \<open>
  \<^verbatim>\<open>\bI\s\<close>: a free-standing capital \<open>I\<close>. The scorer counts the \<open>i\<close> tokens of the lowered
  text, so such a token is counted with the lowercase ones.
\<close>

definition capital_i :: rx where
  "capital_i = Seq WordB (Seq (Lit ''I'') (Cls is_space))"

text \<open>
  The grammar sub-score as the specification words it, for comparison with
  \<open>calculate_grammar_score\<close>: half a point per lowercase free-standing \<open>i\<close> token of the
  text, at most five points, then a flat point for mixed tenses, floored at zero.
\<close>

definition spec_grammar_score :: "string \<Rightarrow> rat" where
  "spec_grammar_score t =
     max 0 (10 - min (of_nat (length (rx_findall False lowercase_i t)) * (1 / 2)) 5
               - (if tense_mixed t then 1 else 0))"

section \<open>The text normalizer (\<open>nlp_utils.py\<close>)\<close>

text \<open>\<open>clean_text\<close>: \<^verbatim>\<open>\s+\<close> becomes one blank, \<^verbatim>\<open>[^\w\s.,!?;:]\<close> is deleted, the result is stripped.\<close>

definition clean_text :: "string \<Rightarrow> string" where
  "clean_text text =
     (let text = rx_sub False (Rep 1 is_space) '' '' text;
          text = rx_sub False (Cls (\<lambda>c. \<not> (is_word c \<or> is_space c \<or> c \<in> set ''.,!?;:''))) [] text
      in py_strip text)"

section \<open>The resume parser (\<open>resume_parser.py\<close>)\<close>

text \<open>\<open>_load_skill_patterns\<close>: four alternations between word boundaries.\<close>

definition skill_patterns :: "rx list" where
  "skill_patterns =
    [Seq WordB (Seq (alts [''python'', ''java'', ''javascript'', ''typescript'', ''c++'', ''c#'',
                           ''go'', ''rust'', ''swift'', ''kotlin'', ''r'', ''sql'']) WordB),
     Seq WordB (Seq (alts [''react'', ''angular'', ''vue'', ''django'', ''flask'', ''spring'',
                           ''express'', ''laravel'', ''rails'', ''tensorflow'', ''pytorch'']) WordB),
     Seq WordB (Seq (alts [''docker'', ''kubernetes'', ''aws'', ''azure'', ''gcp'', ''git'',
                           ''jenkins'', ''ansible'', ''terraform'']) WordB),
     Seq WordB (Seq (alts [''leadership'', ''communication'', ''teamwork'', ''problem-solving'',
                           ''critical thinking'', ''adaptability'']) WordB)]"

text \<open>
  \<open>_extract_skills\<close>: the title-cased pattern matches of the lowered text, then the surface
  forms of the entities labelled \<open>ORG\<close>, \<open>PRODUCT\<close> or \<open>TECH\<close>, collected in a set and returned
  sorted. The entities come from the language model, which is outside the sources; they
  are a parameter here, as pairs of text and label. With no entities the function is the
  skill-pattern pass alone.
\<close>

definition extract_skills :: "(string \<times> string) list \<Rightarrow> string \<Rightarrow> string list" where
  "extract_skills ents text =
     (let skills_found =
            foldl (\<lambda>acc pattern.
                     foldl (\<lambda>acc m. List.insert (py_title m) acc) acc
                       (rx_findall False pattern (py_lower text)))
              [] skill_patterns;
          skills_found =
            foldl (\<lambda>acc (ent_text, ent_label).
                     if ent_label \<in> set [''ORG'', ''PRODUCT'', ''TECH'']
                     then List.insert ent_text acc else acc)
              skills_found ents
      in sort skills_found)"

text \<open>
  \<open>_extract_summary\<close>: the patterns \<^verbatim>\<open>summary.*?(?=experience|education|skills|$)\<close>, and the
  same for \<open>objective\<close> and \<open>profile\<close>, under \<open>IGNORECASE\<close> and \<open>DOTALL\<close>; the first match of the
  first pattern that has one is returned stripped.
\<close>

definition summary_keywords :: "string list" where
  "summary_keywords = [''summary'', ''objective'', ''profile'']"

definition section_pattern :: "string \<Rightarrow> rx" where
  "section_pattern kw =
     Seq (Lit kw)
       (Seq LazyAny (Ahead (alt_list [Lit ''experience'', Lit ''education'', Lit ''skills'', Eos])))"

definition summary_patterns :: "rx list" where
  "summary_patterns = map section_pattern summary_keywords"

fun first_match :: "rx list \<Rightarrow> string \<Rightarrow> string option" where
  "first_match [] text = None"
| "first_match (pattern # rest) text =
     (case rx_search True pattern text of
        Some m \<Rightarrow> Some m
      | None \<Rightarrow> first_match rest text)"

definition extract_summary :: "string \<Rightarrow> string" where
  "extract_summary text =
     (case first_match summary_patterns text of
        Some m \<Rightarrow> py_strip m
      | None \<Rightarrow>
          py_join ''\<newline>''
            (filter (\<lambda>line. 10 < length (py_strip line)) (take 3 (split_lines text))))"

text \<open>No header keyword of the summary occurs in the text, whatever the case of its letters.\<close>

definition no_summary_header :: "string \<Rightarrow> bool" where
  "no_summary_header text = list_all (\<lambda>kw. \<not> is_substr kw (py_lower text)) summary_keywords"

text \<open>
  The fallback as the specification words it, for comparison with \<open>extract_summary\<close>: the
  first three lines among those longer than ten characters, joined by newlines.
\<close>

definition spec_summary_fallback :: "string \<Rightarrow> string" where
  "spec_summary_fallback text =
     py_join ''\<newline>'' (take 3 (filter (\<lambda>line. 10 < length line) (split_lines text)))"

section \<open>The suggestion and rewrite engine (\<open>optimizer.py\<close>, continued)\<close>

text \<open>
  Indexing raises \<open>IndexError\<close> outside the list; as for the division, \<open>None\<close> stands for
  the raised exception.
\<close>

definition py_index :: "'a list \<Rightarrow> nat \<Rightarrow> 'a option" where
  "py_index xs i = (if i < length xs then Some (xs ! i) else None)"

definition common_skills :: "string list" where
  "common_skills =
    [''python'', ''java'', ''javascript'', ''typescript'', ''sql'', ''nosql'',
     ''react'', ''angular'', ''vue'', ''django'', ''flask'', ''spring'',
     ''aws'', ''azure'', ''gcp'', ''docker'', ''kubernetes'',
     ''machine learning'', ''ai'', ''data analysis'', ''tableau'',
     ''agile'', ''scrum'', ''devops'', ''ci/cd'']"

text \<open>
  \<open>_extract_skills_from_jd\<close> and \<open>_extract_keywords\<close> return \<open>list(set(...))\<close>, whose order
  Python leaves unspecified; the model keeps a duplicate-free list. Where the code cuts
  such a list (\<open>[:5]\<close>, \<open>[:3]\<close>, \<open>[:10]\<close>), which elements survive depends on that order;
  the properties below use the length of the cut list only.
\<close>

definition extract_skills_from_jd :: "string \<Rightarrow> string list" where
  "extract_skills_from_jd job_description =
     (let jd_lower = py_lower job_description
      in foldl (\<lambda>acc skill. if is_substr skill jd_lower then List.insert (py_title skill) acc else acc)
           [] common_skills)"

definition suggest_skills :: "string list \<Rightarrow> string \<Rightarrow> string list" where
  "suggest_skills current_skills job_description =
     (if job_description = [] then []
      else
        let job_skills = extract_skills_from_jd job_description;
            missing_skills =
              filter (\<lambda>skill. py_lower skill \<notin> set (map py_lower current_skills)) job_skills
        in take 5 missing_skills)"

definition weak_patterns :: "(rx \<times> string) list" where
  "weak_patterns =
    [(Lit ''responsible for'', ''Use action verbs instead of 'responsible for'' @ [CHR 0x27]),
     (Lit ''duties included'', ''Start with action verbs''),
     (Lit ''helped with'', ''Be more specific about your contribution''),
     (Lit ''worked on'', ''Specify what you achieved'')]"

record weak_suggestion =
  ws_original :: string
  ws_suggestion :: string
  ws_improved :: string

record job_suggestions =
  js_title :: string
  js_suggestions :: "weak_suggestion list"

text \<open>The inner loop of \<open>_suggest_experience_improvements\<close>: the first weak pattern of a bullet.\<close>

definition weak_bullet :: "string \<Rightarrow> weak_suggestion list" where
  "weak_bullet bullet =
     (case find (\<lambda>(pattern, advice). rx_search False pattern (py_lower bullet) \<noteq> None)
             weak_patterns of
        Some (pattern, advice) \<Rightarrow>
          [\<lparr>ws_original = bullet, ws_suggestion = advice,
            ws_improved = improve_bullet_point bullet\<rparr>]
      | None \<Rightarrow> [])"

definition suggest_experience_improvements :: "job_entry list \<Rightarrow> job_suggestions list" where
  "suggest_experience_improvements jobs =
     concat (map (\<lambda>job.
         let found = \<lparr>js_title = title job,
                      js_suggestions = concat (map weak_bullet (description job))\<rparr>
         in if js_suggestions found \<noteq> [] then [found] else [])
       jobs)"

text \<open>\<^verbatim>\<open>\b[a-zA-Z]{4,}\b\<close> on the lowered text, without the common words.\<close>

definition keyword_rx :: rx where
  "keyword_rx = Seq WordB (Seq (Rep 4 is_alpha) WordB)"

definition common_words :: "string list" where
  "common_words =
    [''with'', ''this'', ''that'', ''have'', ''from'', ''they'', ''were'', ''their'']"

definition extract_keywords :: "string \<Rightarrow> string list" where
  "extract_keywords text =
     (let found = rx_findall False keyword_rx (py_lower text);
          keywords = filter (\<lambda>w. w \<notin> set common_words) found
      in remdups keywords)"

definition suggest_summary_improvements :: "string \<Rightarrow> string \<Rightarrow> string list" where
  "suggest_summary_improvements summary_in job_description =
     (let suggestions =
            (if summary_in = [] \<or> length (py_strip summary_in) < 50
             then [''Summary is too short. Add 2-3 sentences highlighting key achievements.'']
             else []);
          suggestions =
            (if job_description \<noteq> [] then
               let jd_keywords = extract_keywords job_description;
                   summary_keywords = extract_keywords summary_in;
                   missing_keywords = filter (\<lambda>kw. kw \<notin> set summary_keywords) jd_keywords
               in if missing_keywords \<noteq> []
                  then suggestions @
                       [''Consider adding these keywords: '' @ py_join '', '' (take 3 missing_keywords)]
                  else suggestions
             else suggestions);
          action_verb_count =
            length (filter (\<lambda>verb. is_substr verb (py_lower summary_in)) action_verbs)
      in if action_verb_count < 1
         then suggestions @
              [''Start with a strong action verb to make your summary more impactful'']
         else suggestions)"

definition suggest_keywords :: "string \<Rightarrow> string \<Rightarrow> string list" where
  "suggest_keywords resume_text job_description =
     (if job_description = [] then []
      else
        let jd_keywords = extract_keywords job_description;
            resume_keywords = extract_keywords resume_text;
            missing_keywords = filter (\<lambda>kw. kw \<notin> set resume_keywords) jd_keywords
        in take 10 missing_keywords)"

record bullet_improvement =
  bi_original :: string
  bi_improved :: string
  bi_reason :: string

definition suggest_bullet_point_improvements :: "job_entry list \<Rightarrow> bullet_improvement list" where
  "suggest_bullet_point_improvements jobs =
     (let improvements_found =
            concat (map (\<lambda>job.
                concat (map (\<lambda>bullet.
                    let improved = improve_bullet_point bullet
                    in if improved \<noteq> bullet
                       then [\<lparr>bi_original = bullet, bi_improved = improved,
                              bi_reason = ''Made more action-oriented and results-focused''\<rparr>]
                       else [])
                  (description job)))
              jobs)
      in take 5 improvements_found)"

record suggestion_bundle =
  sg_skills :: "string list"
  sg_experience :: "job_suggestions list"
  sg_summary :: "string list"
  sg_keywords :: "string list"
  sg_bullet_points :: "bullet_improvement list"

definition get_suggestions :: "profile \<Rightarrow> string \<Rightarrow> suggestion_bundle" where
  "get_suggestions parsed_data job_description =
     \<lparr>sg_skills = suggest_skills (skills parsed_data) job_description,
      sg_experience = suggest_experience_improvements (experience parsed_data),
      sg_summary = suggest_summary_improvements (summary parsed_data) job_description,
      sg_keywords = suggest_keywords (raw_text parsed_data) job_description,
      sg_bullet_points = suggest_bullet_point_improvements (experience parsed_data)\<rparr>"

definition fallback_summary :: string where
  "fallback_summary =
     ''Experienced professional seeking new opportunities to leverage skills and experience.''"

definition optimize_summary :: "string \<Rightarrow> string \<Rightarrow> string option" where
  "optimize_summary summary_in job_description =
     (if summary_in = [] then Some fallback_summary
      else do {
        first_word \<leftarrow>
          (if py_split summary_in \<noteq> []
           then do { w \<leftarrow> py_index (py_split summary_in) 0; Some (py_lower w) }
           else Some []);
        let summary_now =
              (if first_word \<notin> set (map py_lower action_verbs)
               then ''Accomplished '' @ py_lower summary_in
               else summary_in);
        (if summary_now \<noteq> []
         then do { c \<leftarrow> py_index summary_now 0; Some (upper_char c # drop 1 summary_now) }
         else Some summary_now)
      })"

text \<open>The body of the bullet loop of \<open>_optimize_experience\<close>.\<close>

definition optimize_bullet :: "string \<Rightarrow> string" where
  "optimize_bullet bullet =
     (let optimized_bullet = improve_bullet_point bullet
      in if is_substr ''consider adding'' optimized_bullet
         then remove_all advisory_suffix optimized_bullet
         else optimized_bullet)"

definition optimize_experience :: "job_entry list \<Rightarrow> job_entry list" where
  "optimize_experience jobs =
     map (\<lambda>job. job\<lparr>description := map optimize_bullet (description job)\<rparr>) jobs"

fun unique_skills :: "string list \<Rightarrow> string list \<Rightarrow> string list" where
  "unique_skills seen [] = []"
| "unique_skills seen (skill # rest) =
     (let skill_lower = py_lower skill
      in if skill_lower \<notin> set seen then skill # unique_skills (skill_lower # seen) rest
         else unique_skills seen rest)"

definition enhance_skills :: "string list \<Rightarrow> string \<Rightarrow> string list" where
  "enhance_skills current_skills job_description =
     (let enhanced_skills =
            (if job_description \<noteq> []
             then current_skills @ suggest_skills current_skills job_description
             else current_skills)
      in unique_skills [] enhanced_skills)"

record region_info =
  spelling :: string
  date_format :: string

definition regional_changes :: "(string \<times> region_info) list" where
  "regional_changes =
    [(''US'', \<lparr>spelling = ''color'', date_format = ''MM/DD/YYYY''\<rparr>),
     (''UK'', \<lparr>spelling = ''colour'', date_format = ''DD/MM/YYYY''\<rparr>),
     (''India'', \<lparr>spelling = ''colour'', date_format = ''DD/MM/YYYY''\<rparr>)]"

text \<open>\<open>regional_changes.get(region, regional_changes["US"])\<close>\<close>

definition region_lookup :: "string \<Rightarrow> region_info option" where
  "region_lookup region = do {
     us \<leftarrow> map_of regional_changes ''US'';
     Some (case map_of regional_changes region of Some info \<Rightarrow> info | None \<Rightarrow> us)
   }"

record optimized_profile =
  opt_profile :: profile
  regional_format :: region_info

text \<open>
  The optimized resume is the copy of the parsed resume with three keys rebound and the
  key \<open>regional_format\<close> added.
\<close>

definition apply_regional_formatting :: "profile \<Rightarrow> string \<Rightarrow> optimized_profile option" where
  "apply_regional_formatting resume_data region = do {
     info \<leftarrow> region_lookup region;
     Some \<lparr>opt_profile = resume_data, regional_format = info\<rparr>
   }"

definition optimize_resume :: "profile \<Rightarrow> string \<Rightarrow> string \<Rightarrow> optimized_profile option" where
  "optimize_resume parsed_data job_description region = do {
     let optimized = parsed_data;
     new_summary \<leftarrow> optimize_summary (summary parsed_data) job_description;
     let optimized = optimized\<lparr>summary := new_summary\<rparr>;
     let optimized = optimized\<lparr>experience := optimize_experience (experience parsed_data)\<rparr>;
     let optimized = optimized\<lparr>skills := enhance_skills (skills parsed_data) job_description\<rparr>;
     apply_regional_formatting optimized region
   }"

section \<open>The optimizer over an explicit store\<close>

text \<open>
  In Python the parsed resume is a dictionary whose values are strings, lists and further
  dictionaries; lists and dictionaries are mutable objects, shared by reference.
  \<open>optimize_resume\<close> works on a shallow copy, so the question whether it changes its
  input is a question about these objects. Here the store is the list of all objects,
  an address is an index into it, and a new object is put at the end. A string is an
  immutable value. Every function returns \<open>None\<close> where Python raises (a missing key, a
  value of the wrong kind).
\<close>

type_synonym addr = nat

datatype pyval = Str string | Ref addr

datatype pyobj = Dict "(string \<times> pyval) list" | PList "pyval list"

type_synonym store = "pyobj list"

definition alloc :: "store \<Rightarrow> pyobj \<Rightarrow> addr \<times> store" where
  "alloc h obj = (length h, h @ [obj])"

definition get_dict :: "store \<Rightarrow> addr \<Rightarrow> (string \<times> pyval) list option" where
  "get_dict h a =
     (if a < length h then (case h ! a of Dict kvs \<Rightarrow> Some kvs | PList _ \<Rightarrow> None) else None)"

definition get_list :: "store \<Rightarrow> addr \<Rightarrow> pyval list option" where
  "get_list h a =
     (if a < length h then (case h ! a of PList vs \<Rightarrow> Some vs | Dict _ \<Rightarrow> None) else None)"

definition as_str :: "pyval \<Rightarrow> string option" where
  "as_str v = (case v of Str s \<Rightarrow> Some s | Ref _ \<Rightarrow> None)"

definition as_ref :: "pyval \<Rightarrow> addr option" where
  "as_ref v = (case v of Ref a \<Rightarrow> Some a | Str _ \<Rightarrow> None)"

text \<open>\<open>d[k] = v\<close> on the items of a dictionary: an existing key keeps its place.\<close>

fun dict_put :: "(string \<times> pyval) list \<Rightarrow> string \<Rightarrow> pyval \<Rightarrow> (string \<times> pyval) list" where
  "dict_put [] k v = [(k, v)]"
| "dict_put ((k', v') # kvs) k v =
     (if k' = k then (k, v) # kvs else (k', v') # dict_put kvs k v)"

text \<open>\<open>d[k]\<close>, \<open>d[k] = v\<close>, \<open>d.copy()\<close>, \<open>xs.append(v)\<close> and \<open>xs.copy()\<close> on the store.\<close>

definition dict_get :: "store \<Rightarrow> addr \<Rightarrow> string \<Rightarrow> pyval option" where
  "dict_get h a k = do { kvs \<leftarrow> get_dict h a; map_of kvs k }"

definition dict_assign :: "store \<Rightarrow> addr \<Rightarrow> string \<Rightarrow> pyval \<Rightarrow> store option" where
  "dict_assign h a k v = do { kvs \<leftarrow> get_dict h a; Some (h[a := Dict (dict_put kvs k v)]) }"

definition dict_copy :: "store \<Rightarrow> addr \<Rightarrow> (addr \<times> store) option" where
  "dict_copy h a = do { kvs \<leftarrow> get_dict h a; Some (alloc h (Dict kvs)) }"

definition list_append :: "store \<Rightarrow> addr \<Rightarrow> pyval \<Rightarrow> store option" where
  "list_append h a v = do { vs \<leftarrow> get_list h a; Some (h[a := PList (vs @ [v])]) }"

definition list_copy :: "store \<Rightarrow> addr \<Rightarrow> (addr \<times> store) option" where
  "list_copy h a = do { vs \<leftarrow> get_list h a; Some (alloc h (PList vs)) }"

fun list_extend :: "store \<Rightarrow> addr \<Rightarrow> pyval list \<Rightarrow> store option" where
  "list_extend h a [] = Some h"
| "list_extend h a (v # vs) = do { h1 \<leftarrow> list_append h a v; list_extend h1 a vs }"

definition get_strings :: "store \<Rightarrow> addr \<Rightarrow> string list option" where
  "get_strings h a = do { vs \<leftarrow> get_list h a; those (map as_str vs) }"

text \<open>
  \<open>_optimize_experience\<close>: a new list; for each job a copy of its dictionary and a new
  list of bullets, filled by \<open>append\<close>, bound to the key \<open>description\<close> of the copy, and the
  copy appended to the new list. \<open>job.get("description", [])\<close> reads the bullets.
\<close>

fun append_bullets :: "store \<Rightarrow> addr \<Rightarrow> pyval list \<Rightarrow> store option" where
  "append_bullets h bl [] = Some h"
| "append_bullets h bl (b # bs) = do {
     bullet \<leftarrow> as_str b;
     h1 \<leftarrow> list_append h bl (Str (optimize_bullet bullet));
     append_bullets h1 bl bs
   }"

fun optimize_jobs :: "store \<Rightarrow> addr \<Rightarrow> pyval list \<Rightarrow> store option" where
  "optimize_jobs h oe [] = Some h"
| "optimize_jobs h oe (j # js) = do {
     job \<leftarrow> as_ref j;
     (optimized_job, h1) \<leftarrow> dict_copy h job;
     let (optimized_bullets, h2) = alloc h1 (PList []);
     items \<leftarrow> get_dict h2 job;
     bullets \<leftarrow> (case map_of items ''description'' of
                  Some v \<Rightarrow> do { d \<leftarrow> as_ref v; get_list h2 d }
                | None \<Rightarrow> Some []);
     h3 \<leftarrow> append_bullets h2 optimized_bullets bullets;
     h4 \<leftarrow> dict_assign h3 optimized_job ''description'' (Ref optimized_bullets);
     h5 \<leftarrow> list_append h4 oe (Ref optimized_job);
     optimize_jobs h5 oe js
   }"

definition optimize_experience_store :: "store \<Rightarrow> addr \<Rightarrow> (addr \<times> store) option" where
  "optimize_experience_store h exp_list = do {
     let (optimized_experience, h1) = alloc h (PList []);
     jobs \<leftarrow> get_list h1 exp_list;
     h2 \<leftarrow> optimize_jobs h1 optimized_experience jobs;
     Some (optimized_experience, h2)
   }"

text \<open>
  \<open>_enhance_skills\<close>: a copy of the skill list, extended by the missing skills; then a new
  list receives the skills that are new up to case.
\<close>

definition enhance_skills_store :: "store \<Rightarrow> addr \<Rightarrow> string \<Rightarrow> (addr \<times> store) option" where
  "enhance_skills_store h current job_description = do {
     current_skills \<leftarrow> get_strings h current;
     (enhanced_skills, h1) \<leftarrow> list_copy h current;
     h2 \<leftarrow> (if job_description \<noteq> []
            then list_extend h1 enhanced_skills
                   (map Str (suggest_skills current_skills job_description))
            else Some h1);
     enhanced \<leftarrow> get_strings h2 enhanced_skills;
     let (unique, h3) = alloc h2 (PList []);
     h4 \<leftarrow> list_extend h3 unique (map Str (unique_skills [] enhanced));
     Some (unique, h4)
   }"

definition apply_regional_formatting_store :: "store \<Rightarrow> addr \<Rightarrow> string \<Rightarrow> (addr \<times> store) option" where
  "apply_regional_formatting_store h resume_data region = do {
     info \<leftarrow> region_lookup region;
     let (region_obj, h1) =
           alloc h (Dict [(''spelling'', Str (spelling info)),
                          (''date_format'', Str (date_format info))]);
     h2 \<leftarrow> dict_assign h1 resume_data ''regional_format'' (Ref region_obj);
     Some (resume_data, h2)
   }"

definition optimize_resume_store :: "store \<Rightarrow> addr \<Rightarrow> string \<Rightarrow> string \<Rightarrow> (addr \<times> store) option" where
  "optimize_resume_store h parsed_data job_description region = do {
     (optimized, h1) \<leftarrow> dict_copy h parsed_data;
     summary_val \<leftarrow> dict_get h1 parsed_data ''summary'';
     summary_str \<leftarrow> as_str summary_val;
     new_summary \<leftarrow> optimize_summary summary_str job_description;
     h2 \<leftarrow> dict_assign h1 optimized ''summary'' (Str new_summary);
     experience_val \<leftarrow> dict_get h2 parsed_data ''experience'';
     experience_list \<leftarrow> as_ref experience_val;
     (new_experience, h3) \<leftarrow> optimize_experience_store h2 experience_list;
     h4 \<leftarrow> dict_assign h3 optimized ''experience'' (Ref new_experience);
     skills_val \<leftarrow> dict_get h4 parsed_data ''skills'';
     skills_list \<leftarrow> as_ref skills_val;
     (new_skills, h5) \<leftarrow> enhance_skills_store h4 skills_list job_description;
     h6 \<leftarrow> dict_assign h5 optimized ''skills'' (Ref new_skills);
     apply_regional_formatting_store h6 optimized region
   }"

text \<open>
  The store holds a parsed resume at an address when the keys that the optimizer reads
  are bound to values of the right kind: \<open>summary\<close> to a string, \<open>skills\<close> to a list of
  strings, \<open>experience\<close> to a list of job dictionaries, each with a list of strings under
  \<open>description\<close> or without that key.
\<close>

definition wf_job :: "store \<Rightarrow> pyval \<Rightarrow> bool" where
  "wf_job h j =
     (case j of
        Str _ \<Rightarrow> False
      | Ref job \<Rightarrow>
          (case get_dict h job of
             None \<Rightarrow> False
           | Some items \<Rightarrow>
               (case map_of items ''description'' of
                  None \<Rightarrow> True
                | Some (Str _) \<Rightarrow> False
                | Some (Ref d) \<Rightarrow> get_strings h d \<noteq> None)))"

definition wf_resume :: "store \<Rightarrow> addr \<Rightarrow> bool" where
  "wf_resume h parsed_data =
     (case get_dict h parsed_data of
        None \<Rightarrow> False
      | Some items \<Rightarrow>
          (case map_of items ''summary'' of Some (Str _) \<Rightarrow> True | _ \<Rightarrow> False)
          \<and> (case map_of items ''experience'' of
                Some (Ref e) \<Rightarrow>
                  (case get_list h e of Some jobs \<Rightarrow> list_all (wf_job h) jobs | None \<Rightarrow> False)
              | _ \<Rightarrow> False)
          \<and> (case map_of items ''skills'' of
                Some (Ref s) \<Rightarrow> get_strings h s \<noteq> None
              | _ \<Rightarrow> False))"

text \<open>
  A store that holds one parsed resume: the dictionary at address 0, one job with two
  bullets, one skill.
\<close>

definition example_store :: store where
  "example_store =
    [Dict [(''raw_text'', Str ''Senior Engineer''), (''skills'', Ref 1), (''experience'', Ref 2),
           (''education'', Ref 6), (''projects'', Ref 7), (''personal_info'', Ref 8),
           (''summary'', Str ''Engineer'')],
     PList [Str ''Python''],
     PList [Ref 3],
     Dict [(''title'', Str ''Senior Engineer''), (''company'', Str []), (''dates'', Ref 4),
           (''description'', Ref 5)],
     PList [],
     PList [Str ''responsible for managing a team'', Str ''Developed 3 services''],
     PList [],
     PList [],
     Dict []]"

section \<open>Verified properties\<close>

subsection \<open>The character classes on the bits of a character\<close>

text \<open>
  The same classes read off the eight bits of a character, lowest bit first; these are
  the equations used to evaluate the functions on concrete texts.
\<close>

lemma is_upper_bits [code]:
  "is_upper (Char b0 b1 b2 b3 b4 b5 b6 b7) =
     (\<not> b7 \<and> b6 \<and> \<not> b5 \<and> (b0 \<or> b1 \<or> b2 \<or> b3 \<or> b4) \<and> \<not> (b4 \<and> b3 \<and> (b2 \<or> (b1 \<and> b0))))"
  by (cases b0; cases b1; cases b2; cases b3; cases b4; cases b5; cases b6; cases b7)
     (simp_all add: is_upper_def)

lemma is_lower_bits [code]:
  "is_lower (Char b0 b1 b2 b3 b4 b5 b6 b7) =
     (\<not> b7 \<and> b6 \<and> b5 \<and> (b0 \<or> b1 \<or> b2 \<or> b3 \<or> b4) \<and> \<not> (b4 \<and> b3 \<and> (b2 \<or> (b1 \<and> b0))))"
  by (cases b0; cases b1; cases b2; cases b3; cases b4; cases b5; cases b6; cases b7)
     (simp_all add: is_lower_def)

lemma is_digit_bits [code]:
  "is_digit (Char b0 b1 b2 b3 b4 b5 b6 b7) =
     (\<not> b7 \<and> \<not> b6 \<and> b5 \<and> b4 \<and> \<not> (b3 \<and> (b2 \<or> b1)))"
  by (cases b0; cases b1; cases b2; cases b3; cases b4; cases b5; cases b6; cases b7)
     (simp_all add: is_digit_def)

lemma is_space_bits [code]:
  "is_space (Char b0 b1 b2 b3 b4 b5 b6 b7) =
     (\<not> b7 \<and> \<not> b6 \<and>
      ((b5 \<and> \<not> b4 \<and> \<not> b3 \<and> \<not> b2 \<and> \<not> b1 \<and> \<not> b0)
       \<or> (\<not> b5 \<and> b4 \<and> b3 \<and> b2)
       \<or> (\<not> b5 \<and> \<not> b4 \<and> b3 \<and> (if b2 then \<not> b1 else (b1 \<or> b0)))))"
  by (cases b0; cases b1; cases b2; cases b3; cases b4; cases b5; cases b6; cases b7)
     (simp_all add: is_space_def)

lemma lower_char_bits [code]:
  "lower_char (Char b0 b1 b2 b3 b4 b5 b6 b7) =
     (if is_upper (Char b0 b1 b2 b3 b4 b5 b6 b7) then Char b0 b1 b2 b3 b4 True b6 b7
      else Char b0 b1 b2 b3 b4 b5 b6 b7)"
  by (cases b0; cases b1; cases b2; cases b3; cases b4; cases b5; cases b6; cases b7)
     (simp_all add: lower_char_def is_upper_def char_of_def bit_0)

lemma upper_char_bits [code]:
  "upper_char (Char b0 b1 b2 b3 b4 b5 b6 b7) =
     (if is_lower (Char b0 b1 b2 b3 b4 b5 b6 b7) then Char b0 b1 b2 b3 b4 False b6 b7
      else Char b0 b1 b2 b3 b4 b5 b6 b7)"
  by (cases b0; cases b1; cases b2; cases b3; cases b4; cases b5; cases b6; cases b7)
     (simp_all add: upper_char_def is_lower_def char_of_def bit_0)

subsection \<open>The bullet rewrite\<close>

text \<open>
  C5 (as the sources have it). On the input \<open>responsible for managing a team\<close> the bullet
  rewrite deletes the weak phrase and keeps the blank that followed it, finds no action
  verb and no context pattern, and so prepends the default verb and a blank: the result
  has two blanks after \<open>Managed\<close>, followed by the advisory suffix.
\<close>

theorem improve_bullet_point_responsible_for:
  "improve_bullet_point ''responsible for managing a team''
     = ''Managed  managing a team - consider adding quantifiable results''"
  by code_simp

text \<open>
  C5 (as the specification words it). The string with a single blank after \<open>Managed\<close> is
  not what the rewrite returns.
\<close>

theorem improve_bullet_point_single_blank_counterexample:
  "improve_bullet_point ''responsible for managing a team''
     \<noteq> ''Managed managing a team - consider adding quantifiable results''"
  by code_simp

subsection \<open>Arithmetic of the scorer\<close>

lemma py_div_Some: "b \<noteq> 0 \<Longrightarrow> py_div a b = Some (a / b)"
  by (simp add: py_div_def)

lemma rx_split_from_nonempty: "rx_split_from ci r w p s \<noteq> []"
  by (induction ci r w p s rule: rx_split_from.induct) (auto split: list.splits)

lemma rx_split_nonempty: "rx_split ci r s \<noteq> []"
  by (simp add: rx_split_def rx_split_from_nonempty)

lemma round_half_even_lower: "of_int m \<le> y \<Longrightarrow> m \<le> round_half_even y"
proof -
  assume "of_int m \<le> y"
  then have "m \<le> \<lfloor>y\<rfloor>" by (simp add: le_floor_iff)
  then show ?thesis by (simp add: round_half_even_def Let_def)
qed

lemma round_half_even_upper: "y \<le> of_int m \<Longrightarrow> round_half_even y \<le> m"
proof -
  assume le: "y \<le> of_int m"
  show ?thesis
  proof (cases "y = of_int m")
    case True
    then show ?thesis by (simp add: round_half_even_def Let_def)
  next
    case False
    with le have "y < of_int m" by simp
    then have "\<lfloor>y\<rfloor> < m" by (simp add: floor_less_iff)
    then show ?thesis by (simp add: round_half_even_def Let_def)
  qed
qed

text \<open>Rounding to a tenth never leaves an interval with integer ends.\<close>

lemma py_round1_bounds:
  assumes "of_int lo \<le> x" and "x \<le> of_int hi"
  shows "of_int lo \<le> py_round1 x \<and> py_round1 x \<le> of_int hi"
proof -
  have "of_int (lo * 10) \<le> x * 10" using assms(1) by simp
  then have a: "lo * 10 \<le> round_half_even (x * 10)" by (rule round_half_even_lower)
  have "x * 10 \<le> of_int (hi * 10)" using assms(2) by simp
  then have b: "round_half_even (x * 10) \<le> hi * 10" by (rule round_half_even_upper)
  have a': "(of_int (lo * 10) :: rat) \<le> of_int (round_half_even (x * 10))"
    using a by (simp only: of_int_le_iff)
  have b': "(of_int (round_half_even (x * 10)) :: rat) \<le> of_int (hi * 10)"
    using b by (simp only: of_int_le_iff)
  show ?thesis using a' b' by (simp add: py_round1_def field_simps)
qed

lemma round_to_40: "0 \<le> a \<Longrightarrow> a \<le> 40 \<Longrightarrow> 0 \<le> py_round1 a \<and> py_round1 a \<le> 40"
  using py_round1_bounds [of 0 a 40] by simp

lemma round_to_20: "0 \<le> a \<Longrightarrow> a \<le> 20 \<Longrightarrow> 0 \<le> py_round1 a \<and> py_round1 a \<le> 20"
  using py_round1_bounds [of 0 a 20] by simp

lemma round_to_15: "0 \<le> a \<Longrightarrow> a \<le> 15 \<Longrightarrow> 0 \<le> py_round1 a \<and> py_round1 a \<le> 15"
  using py_round1_bounds [of 0 a 15] by simp

lemma round_to_10: "0 \<le> a \<Longrightarrow> a \<le> 10 \<Longrightarrow> 0 \<le> py_round1 a \<and> py_round1 a \<le> 10"
  using py_round1_bounds [of 0 a 10] by simp

subsection \<open>The sub-scores\<close>

lemma insert_fold_set:
  "set (foldl (\<lambda>acc x. if P x then List.insert x acc else acc) acc0 xs)
     = set acc0 \<union> {x \<in> set xs. P x}"
  by (induction xs arbitrary: acc0) auto

lemma insert_fold_distinct:
  "distinct acc0 \<Longrightarrow>
   distinct (foldl (\<lambda>acc x. if P x then List.insert x acc else acc) acc0 xs)"
  by (induction xs arbitrary: acc0) auto

lemma set_extract_skills_from_text:
  "set (extract_skills_from_text t) = {s \<in> set tech_skills. is_substr s (py_lower t)}"
  by (simp add: extract_skills_from_text_def Let_def insert_fold_set)

lemma distinct_extract_skills_from_text: "distinct (extract_skills_from_text t)"
  by (simp add: extract_skills_from_text_def Let_def insert_fold_distinct)

lemma length_extract_skills_from_text:
  "length (extract_skills_from_text t) = card (set (extract_skills_from_text t))"
  by (simp add: distinct_card distinct_extract_skills_from_text)

lemma calculate_skills_match_eq:
  "jd \<noteq> [] \<Longrightarrow>
   calculate_skills_match sk jd =
     Some (if set (extract_skills_from_text jd) = {} then 0
           else min (of_nat (card (set (map py_lower sk) \<inter> set (extract_skills_from_text jd)))
                       / of_nat (card (set (extract_skills_from_text jd))) * 40) 40)"
  by (simp add: calculate_skills_match_def Let_def py_div_def length_extract_skills_from_text)

lemma calculate_skills_match_bounds:
  "\<exists>x. calculate_skills_match sk jd = Some x \<and> 0 \<le> x \<and> x \<le> 40"
proof (cases "jd = []")
  case True
  then show ?thesis by (simp add: calculate_skills_match_def)
next
  case False
  then show ?thesis by (simp add: calculate_skills_match_eq)
qed

lemma skills_count_bounds:
  "\<exists>x. (do { skills_score \<leftarrow> py_div (of_nat n) 20; Some (min (skills_score * 40) 40) }) = Some x
       \<and> 0 \<le> x \<and> x \<le> 40"
  by (simp add: py_div_def)

lemma skills_component_bounds:
  "\<exists>x. (if jd \<noteq> [] then calculate_skills_match (skills p) jd
         else do { skills_score \<leftarrow> py_div (of_nat (length (skills p))) 20;
                   Some (min (skills_score * 40) 40) }) = Some x
       \<and> 0 \<le> x \<and> x \<le> 40"
  using calculate_skills_match_bounds [of "skills p" jd] skills_count_bounds [of "length (skills p)"]
  by (cases "jd = []") simp_all

lemma calculate_keywords_score_bounds:
  "\<exists>x. calculate_keywords_score t = Some x \<and> 0 \<le> x \<and> x \<le> 20"
  by (simp add: calculate_keywords_score_def Let_def py_div_def common_action_verbs_def)

lemma bullet_ratio_of_Some: "\<exists>x. bullet_ratio_of t = Some x"
  by (simp add: bullet_ratio_of_def Let_def py_div_def)

lemma section_fold_le:
  "foldl (\<lambda>sc sect. if P sect then sc - 2 else sc) (s::rat) xs \<le> s"
proof (induction xs arbitrary: s)
  case Nil
  show ?case by simp
next
  case (Cons x xs)
  have "foldl (\<lambda>sc sect. if P sect then sc - 2 else sc) (if P x then s - 2 else s) xs
          \<le> (if P x then s - 2 else s)"
    by (rule Cons.IH)
  then show ?case by (simp split: if_splits)
qed

lemma calculate_formatting_score_bounds:
  "\<exists>x. calculate_formatting_score p = Some x \<and> 0 \<le> x \<and> x \<le> 15"
proof -
  obtain br where br: "bullet_ratio_of (raw_text p) = Some br"
    using bullet_ratio_of_Some by blast
  have "foldl (\<lambda>sc sect. if \<not> is_substr sect (py_lower (raw_text p)) then sc - 2 else sc)
          (15::rat) required_sections \<le> 15"
    by (rule section_fold_le)
  then show ?thesis
    by (simp add: calculate_formatting_score_def Let_def br)
qed

lemma calculate_readability_score_bounds:
  "\<exists>x. calculate_readability_score t = Some x \<and> 0 \<le> x \<and> x \<le> 15"
  by (simp add: calculate_readability_score_def Let_def py_div_def rx_split_nonempty)

lemma get_readability_details_Some: "\<exists>d. get_readability_details t = Some d"
  by (simp add: get_readability_details_def Let_def py_div_def rx_split_nonempty)

lemma get_formatting_details_Some: "\<exists>d. get_formatting_details p = Some d"
proof -
  obtain br where br: "bullet_ratio_of (raw_text p) = Some br"
    using bullet_ratio_of_Some by blast
  show ?thesis by (simp add: get_formatting_details_def Let_def br)
qed

lemma count_matches_common_errors:
  "count_matches (map fst common_errors) t
     = length (rx_findall False lowercase_i t) + length (rx_findall False their_token t)"
  by (simp add: count_matches_def common_errors_def)

lemma calculate_grammar_score_eq:
  "calculate_grammar_score t =
     10 - min (of_nat (length (rx_findall False lowercase_i (py_lower t))
                       + length (rx_findall False their_token (py_lower t))
                       + (if tense_mixed t then 1 else 0)) / 2) 5"
  by (simp add: calculate_grammar_score_def Let_def count_matches_common_errors tense_mixed_def
        max_def min_def)

lemma calculate_grammar_score_bounds:
  "5 \<le> calculate_grammar_score t \<and> calculate_grammar_score t \<le> 10"
  by (simp add: calculate_grammar_score_eq)

subsection \<open>The aggregate\<close>

lemma weighted_sum_five:
  "weighted_sum [(''skills_match'', a), (''keywords'', b), (''formatting'', c),
                 (''readability'', d), (''grammar'', e)]
     = Some (a * (35 / 100) + (b * (25 / 100) + (c * (15 / 100) + (d * (15 / 100)
                + (e * (10 / 100) + 0)))))"
  by (simp add: weights_def)

lemma sum_weights: "sum_list (map snd weights) = 1"
  by (simp add: weights_def)

lemma calculate_score_shape:
  assumes a: "(if jd \<noteq> [] then calculate_skills_match (skills p) jd
               else do { skills_score \<leftarrow> py_div (of_nat (length (skills p))) 20;
                         Some (min (skills_score * 40) 40) }) = Some a"
    and b: "calculate_keywords_score (raw_text p) = Some b"
    and c: "calculate_formatting_score p = Some c"
    and d: "calculate_readability_score (raw_text p) = Some d"
    and fd: "get_formatting_details p = Some fd"
    and rd: "get_readability_details (raw_text p) = Some rd"
  shows "calculate_score p jd =
     Some \<lparr>total_score =
              py_round1 ((a * (35 / 100) + (b * (25 / 100) + (c * (15 / 100) + (d * (15 / 100)
                 + (calculate_grammar_score (raw_text p) * (10 / 100) + 0))))) / 1 * 100),
           breakdown =
             [(''Skills Match'',
                 \<lparr>score = py_round1 a, max_score = 40,
                  details = get_skills_match_details (skills p) jd\<rparr>),
              (''Keywords'',
                 \<lparr>score = py_round1 b, max_score = 20,
                  details = get_keywords_details (raw_text p)\<rparr>),
              (''Formatting'', \<lparr>score = py_round1 c, max_score = 15, details = fd\<rparr>),
              (''Readability'', \<lparr>score = py_round1 d, max_score = 15, details = rd\<rparr>),
              (''Grammar'',
                 \<lparr>score = py_round1 (calculate_grammar_score (raw_text p)), max_score = 10,
                  details = get_grammar_details (raw_text p)\<rparr>)]\<rparr>"
  unfolding calculate_score_def a b c d fd rd weighted_sum_five sum_weights
  by (simp add: py_div_def Let_def)

lemma calculate_score_parts:
  "\<exists>a b c d fd rd.
      (if jd \<noteq> [] then calculate_skills_match (skills p) jd
       else do { skills_score \<leftarrow> py_div (of_nat (length (skills p))) 20;
                 Some (min (skills_score * 40) 40) }) = Some a \<and> 0 \<le> a \<and> a \<le> 40
    \<and> calculate_keywords_score (raw_text p) = Some b \<and> 0 \<le> b \<and> b \<le> 20
    \<and> calculate_formatting_score p = Some c \<and> 0 \<le> c \<and> c \<le> 15
    \<and> calculate_readability_score (raw_text p) = Some d \<and> 0 \<le> d \<and> d \<le> 15
    \<and> get_formatting_details p = Some fd
    \<and> get_readability_details (raw_text p) = Some rd"
  using skills_component_bounds [of jd p] calculate_keywords_score_bounds [of "raw_text p"]
    calculate_formatting_score_bounds [of p] calculate_readability_score_bounds [of "raw_text p"]
    get_formatting_details_Some [of p] get_readability_details_Some [of "raw_text p"]
  by blast

lemma calculate_score_Some: "\<exists>r. calculate_score p jd = Some r"
proof -
  obtain a b c d fd rd where
    "(if jd \<noteq> [] then calculate_skills_match (skills p) jd
      else do { skills_score \<leftarrow> py_div (of_nat (length (skills p))) 20;
                Some (min (skills_score * 40) 40) }) = Some a"
    "calculate_keywords_score (raw_text p) = Some b"
    "calculate_formatting_score p = Some c"
    "calculate_readability_score (raw_text p) = Some d"
    "get_formatting_details p = Some fd"
    "get_readability_details (raw_text p) = Some rd"
    using calculate_score_parts [of jd p] by blast
  then show ?thesis by (simp add: calculate_score_shape)
qed

text \<open>
  C10. For every profile and every job description the scorer returns a breakdown whose
  five entries carry the maxima 40, 20, 15, 15 and 10, and the score reported in each
  entry lies between 0 and the maximum of that entry.
\<close>

theorem category_scores_within_bounds:
  "\<exists>r. calculate_score p jd = Some r
     \<and> map (\<lambda>(name, c). (name, max_score c)) (breakdown r)
         = [(''Skills Match'', 40), (''Keywords'', 20), (''Formatting'', 15),
            (''Readability'', 15), (''Grammar'', 10)]
     \<and> list_all (\<lambda>(name, c). 0 \<le> score c \<and> score c \<le> max_score c) (breakdown r)"
proof -
  obtain a b c d fd rd where
    a: "(if jd \<noteq> [] then calculate_skills_match (skills p) jd
         else do { skills_score \<leftarrow> py_div (of_nat (length (skills p))) 20;
                   Some (min (skills_score * 40) 40) }) = Some a" "0 \<le> a" "a \<le> 40" and
    b: "calculate_keywords_score (raw_text p) = Some b" "0 \<le> b" "b \<le> 20" and
    c: "calculate_formatting_score p = Some c" "0 \<le> c" "c \<le> 15" and
    d: "calculate_readability_score (raw_text p) = Some d" "0 \<le> d" "d \<le> 15" and
    fd: "get_formatting_details p = Some fd" and
    rd: "get_readability_details (raw_text p) = Some rd"
    using calculate_score_parts [of jd p] by blast
  have g: "0 \<le> calculate_grammar_score (raw_text p)" "calculate_grammar_score (raw_text p) \<le> 10"
    using calculate_grammar_score_bounds [of "raw_text p"] by simp_all
  show ?thesis
    unfolding calculate_score_shape [OF a(1) b(1) c(1) d(1) fd rd]
    using round_to_40 [OF a(2,3)] round_to_20 [OF b(2,3)] round_to_15 [OF c(2,3)]
      round_to_15 [OF d(2,3)] round_to_10 [OF g]
    by simp
qed

text \<open>
  C1. The total is meant to lie in the interval from 0 to 100 (the source announces a
  conversion to the 0-100 scale). On the empty profile with no job description the
  sub-scores are 0, 0, 5, 0 and 10, and the scorer reports the total 175: the weighted sum
  of sub-scores that live on scales of 40, 20, 15, 15 and 10 points is multiplied by 100.
\<close>

theorem calculate_score_empty_profile:
  "map_option total_score (calculate_score empty_profile []) = Some 175"
  by code_simp

text \<open>
  Lowering a text changes neither the word boundaries nor the whitespace, so it changes
  the count of the \<open>i\<close> tokens only where the text has a free-standing capital \<open>I\<close>.
\<close>

lemma is_word_lower: "is_word (lower_char c) = is_word c"
  by (cases c rule: char.exhaust)
     (auto simp: is_word_def is_alpha_def is_upper_bits is_lower_bits is_digit_bits lower_char_bits)

lemma is_space_lower: "is_space (lower_char c) = is_space c"
  by (cases c rule: char.exhaust) (auto simp: is_space_bits is_upper_bits lower_char_bits)

lemma lower_char_is_i: "lower_char c = CHR ''i'' \<longleftrightarrow> c = CHR ''i'' \<or> c = CHR ''I''"
  by (cases c rule: char.exhaust) (auto simp: is_upper_bits lower_char_bits)

lemma word_before_lower: "word_before (map_option lower_char p) = word_before p"
  by (cases p) (simp_all add: word_before_def is_word_lower)

lemma word_after_lower: "word_after (py_lower s) = word_after s"
  by (cases s) (simp_all add: word_after_def py_lower_def is_word_lower)

text \<open>A one-letter token between a word boundary and a whitespace character.\<close>

lemma token_ends:
  "rx_ends False (Seq WordB (Seq (Lit [x]) (Cls is_space))) p s =
     (if word_before p \<noteq> word_after s \<and> (\<exists>c rest. s = x # c # rest \<and> is_space c)
      then [2] else [])"
proof (cases s)
  case Nil
  then show ?thesis by (simp add: lit_at_def)
next
  case (Cons a as)
  show ?thesis
  proof (cases as)
    case Nil
    with Cons show ?thesis by (simp add: lit_at_def prev_after_def)
  next
    case (Cons b bs)
    with \<open>s = a # as\<close> show ?thesis by (auto simp: lit_at_def prev_after_def)
  qed
qed

lemma lowercase_i_ends_lowered:
  "rx_ends False lowercase_i (map_option lower_char p) (py_lower s) =
     (if rx_ends False lowercase_i p s \<noteq> [] \<or> rx_ends False capital_i p s \<noteq> [] then [2] else [])"
proof -
  have "(\<exists>c rest. py_lower s = CHR ''i'' # c # rest \<and> is_space c)
          \<longleftrightarrow> (\<exists>c rest. s = CHR ''i'' # c # rest \<and> is_space c)
              \<or> (\<exists>c rest. s = CHR ''I'' # c # rest \<and> is_space c)"
    by (cases s rule: list.exhaust [case_names Nil Cons])
       (auto simp: py_lower_def Cons_eq_map_conv lower_char_is_i is_space_lower)
  then show ?thesis
    unfolding lowercase_i_def capital_i_def token_ends word_before_lower word_after_lower
    by auto
qed

lemma no_match_tail:
  "rx_findall_from ci r p (c # cs) = [] \<Longrightarrow>
   rx_ends ci r p (c # cs) = [] \<and> rx_findall_from ci r (Some c) cs = []"
  by (auto split: list.splits if_splits)

lemma lowercase_i_count_lowered:
  "rx_findall_from False capital_i p s = [] \<Longrightarrow>
   length (rx_findall_from False lowercase_i (map_option lower_char p) (py_lower s))
     = length (rx_findall_from False lowercase_i p s)"
proof (induction s arbitrary: p rule: length_induct)
  case (1 s)
  show ?case
  proof (cases s)
    case Nil
    then show ?thesis
      using lowercase_i_ends_lowered [of p "[]"] "1.prems"
      by (auto simp: py_lower_def split: if_splits)
  next
    case (Cons c cs)
    with "1.prems" have nc: "rx_ends False capital_i p (c # cs) = []"
      and tl: "rx_findall_from False capital_i (Some c) cs = []"
      using no_match_tail by blast+
    have low: "rx_ends False lowercase_i (map_option lower_char p) (lower_char c # py_lower cs)
                 = (if rx_ends False lowercase_i p (c # cs) \<noteq> [] then [2] else [])"
      using lowercase_i_ends_lowered [of p "c # cs"] nc by (simp add: py_lower_def)
    show ?thesis
    proof (cases "rx_ends False lowercase_i p (c # cs) = []")
      case True
      have "length (rx_findall_from False lowercase_i (map_option lower_char (Some c)) (py_lower cs))
              = length (rx_findall_from False lowercase_i (Some c) cs)"
        using "1.IH" [rule_format, of cs "Some c"] Cons tl by simp
      with True low show ?thesis by (simp add: Cons py_lower_def)
    next
      case False
      then obtain c2 rest where cs: "cs = c2 # rest" and two: "rx_ends False lowercase_i p (c # cs) = [2]"
        unfolding lowercase_i_def token_ends by (auto split: if_splits)
      from tl cs have tl2: "rx_findall_from False capital_i (Some c2) rest = []"
        using no_match_tail by blast
      have "length (rx_findall_from False lowercase_i (map_option lower_char (Some c2)) (py_lower rest))
              = length (rx_findall_from False lowercase_i (Some c2) rest)"
        using "1.IH" [rule_format, of rest "Some c2"] Cons cs tl2 by simp
      with two low show ?thesis by (simp add: Cons cs py_lower_def prev_after_def)
    qed
  qed
qed

lemma lowercase_i_count:
  "rx_findall False capital_i t = [] \<Longrightarrow>
   length (rx_findall False lowercase_i (py_lower t)) = length (rx_findall False lowercase_i t)"
  using lowercase_i_count_lowered [of None t] by (simp add: rx_findall_def)

text \<open>
  C3 (as the sources have it by design). On a text with no free-standing capital \<open>I\<close>, the
  grammar sub-score is 10 minus half a point for each error, at most five points in all,
  where the errors are the lowercase free-standing \<open>i\<close> tokens of the text and the \<open>their\<close>
  tokens of the lowered text, plus one error when the tenses are mixed. The score
  therefore lies between 5 and 10, and the floor at 0 never applies.
\<close>

theorem grammar_score_counts:
  "rx_findall False capital_i t = [] \<Longrightarrow>
   calculate_grammar_score t =
     10 - min (of_nat (length (rx_findall False lowercase_i t)
                       + length (rx_findall False their_token (py_lower t))
                       + (if tense_mixed t then 1 else 0)) / 2) 5
   \<and> 5 \<le> calculate_grammar_score t \<and> calculate_grammar_score t \<le> 10"
  using calculate_grammar_score_eq [of t] calculate_grammar_score_bounds [of t]
    lowercase_i_count [of t]
  by simp

theorem grammar_score_counts_witness:
  "rx_findall False capital_i ''i am their lead'' = []
   \<and> calculate_grammar_score ''i am their lead'' = 9"
proof -
  have h: "rx_findall False capital_i ''i am their lead'' = []" by code_simp
  have v: "10 - min (of_nat (length (rx_findall False lowercase_i ''i am their lead'')
                       + length (rx_findall False their_token (py_lower ''i am their lead''))
                       + (if tense_mixed ''i am their lead'' then 1 else 0)) / 2) 5 = (9::rat)"
    by code_simp
  show ?thesis using grammar_score_counts [OF h] h v by simp
qed

text \<open>
  C3 (as the specification words it). The wording counts only the \<open>i\<close> token and takes a
  flat point for mixed tenses. The text \<open>their dog\<close> has no \<open>i\<close> token and no verb, yet
  scores 9.5; the text \<open>managed manage\<close> mixes tenses and scores 9.5, not 9.
\<close>

theorem grammar_score_counterexample:
  "calculate_grammar_score ''their dog'' \<noteq> spec_grammar_score ''their dog''
   \<and> calculate_grammar_score ''managed manage'' \<noteq> spec_grammar_score ''managed manage''"
  by code_simp

text \<open>
  The statement above leaves open the texts with a free-standing capital \<open>I\<close>. There the
  scorer, which lowers the text before it counts, takes half a point for a correctly
  capitalised \<open>I\<close>, against its own comment and message (a lowercase \<open>i\<close>) and against
  \<open>_get_grammar_details\<close>, which searches the text as it is and reports nothing.
\<close>

lemma capital_i_is_penalised:
  "calculate_grammar_score ''I am here'' = 19 / 2
   \<and> get_grammar_details ''I am here'' = [''Basic grammar check passed'']"
  by code_simp

text \<open>
  C6. For a non-empty job description the skills-match sub-score is 0 when no vocabulary
  item occurs in it, and otherwise the share of the extracted job skills that occur among
  the lowered profile skills, scaled to 40 points and capped at 40. For the job
  description \<open>python aws docker\<close> and the profile skills \<open>Python\<close> the score reported
  under Skills Match is 13.3.
\<close>

theorem skills_match_formula:
  "jd \<noteq> [] \<Longrightarrow>
     calculate_skills_match sk jd =
       Some (if set (extract_skills_from_text jd) = {} then 0
             else min (of_nat (card (set (map py_lower sk) \<inter> set (extract_skills_from_text jd)))
                         / of_nat (card (set (extract_skills_from_text jd))) * 40) 40)
   \<and> (\<exists>r c. calculate_score (empty_profile\<lparr>skills := [''Python'']\<rparr>) ''python aws docker'' = Some r
            \<and> map_of (breakdown r) ''Skills Match'' = Some c \<and> score c = 133 / 10)"
proof -
  assume jd: "jd \<noteq> []"
  have ex: "\<exists>r c. calculate_score (empty_profile\<lparr>skills := [''Python'']\<rparr>) ''python aws docker'' = Some r
            \<and> map_of (breakdown r) ''Skills Match'' = Some c \<and> score c = 133 / 10"
  proof -
    have "map_option (\<lambda>r. map_option score (map_of (breakdown r) ''Skills Match''))
            (calculate_score (empty_profile\<lparr>skills := [''Python'']\<rparr>) ''python aws docker'')
          = Some (Some (133 / 10))"
      by code_simp
    then show ?thesis by auto
  qed
  show ?thesis using calculate_skills_match_eq [OF jd, of sk] ex by simp
qed

theorem skills_match_formula_witness:
  "''python aws docker'' \<noteq> []
   \<and> calculate_skills_match [''Python''] ''python aws docker'' = Some (40 / 3)"
proof -
  have ne: "''python aws docker'' \<noteq> []" by simp
  have v: "(if set (extract_skills_from_text ''python aws docker'') = {} then 0
            else min (of_nat (card (set (map py_lower [''Python''])
                                    \<inter> set (extract_skills_from_text ''python aws docker'')))
                        / of_nat (card (set (extract_skills_from_text ''python aws docker''))) * 40) 40)
           = (40 / 3 :: rat)"
    by code_simp
  show ?thesis using skills_match_formula [OF ne, of "[''Python'']"] v by simp
qed

subsection \<open>The parser's skills and summary\<close>

lemma is_substr_sublist: "is_substr p s \<longleftrightarrow> sublist p s"
  by (induction s) (auto simp: sublist_Cons_right)

lemma lower_char_idem: "lower_char (lower_char c) = lower_char c"
  by (auto simp: lower_char_def is_upper_def)

lemma lower_upper_char: "lower_char (upper_char c) = lower_char c"
  by (auto simp: lower_char_def upper_char_def is_upper_def is_lower_def)

lemma py_lower_idem: "py_lower (py_lower s) = py_lower s"
  by (simp add: py_lower_def lower_char_idem)

lemma py_lower_title_from: "py_lower (py_title_from b w) = py_lower w"
  by (induction b w rule: py_title_from.induct)
     (simp_all add: py_lower_def lower_char_idem lower_upper_char)

lemma py_lower_title: "py_lower (py_title w) = py_lower w"
  by (simp add: py_title_def py_lower_title_from)

lemma substr_of_lowered:
  assumes "is_substr m (py_lower t)"
  shows "py_lower m = m"
proof -
  from assms obtain ps ss where eq: "py_lower t = ps @ m @ ss"
    by (auto simp: is_substr_sublist sublist_def)
  have "py_lower (ps @ m @ ss) = ps @ m @ ss"
    using py_lower_idem [of t] by (simp only: eq)
  then have "map lower_char ps @ map lower_char m @ map lower_char ss = ps @ m @ ss"
    by (simp add: py_lower_def)
  then show ?thesis by (simp add: py_lower_def)
qed

lemma rx_findall_from_substr:
  "m \<in> set (rx_findall_from ci r p s) \<Longrightarrow> is_substr m s"
proof (induction ci r p s rule: rx_findall_from.induct)
  case (1 ci r p)
  then show ?case by (simp split: if_splits)
next
  case (2 ci r p c cs)
  show ?case
  proof (cases "rx_ends ci r p (c # cs)")
    case Nil
    with 2 have "is_substr m cs" by simp
    then show ?thesis by simp
  next
    case (Cons k ks)
    show ?thesis
    proof (cases "k = 0")
      case True
      with 2 Cons have "m = [] \<or> is_substr m cs" by auto
      then show ?thesis by auto
    next
      case False
      with 2 Cons have "m = take k (c # cs) \<or> is_substr m (drop k (c # cs))" by auto
      then show ?thesis
      proof
        assume "m = take k (c # cs)"
        then show ?thesis unfolding is_substr_sublist by (simp only: sublist_take)
      next
        assume "is_substr m (drop k (c # cs))"
        then have "sublist m (drop k (c # cs))" by (simp only: is_substr_sublist)
        moreover have "sublist (drop k (c # cs)) (c # cs)" by (rule sublist_drop)
        ultimately have "sublist m (c # cs)" by (rule sublist_order.order.trans)
        then show ?thesis by (simp only: is_substr_sublist)
      qed
    qed
  qed
qed

lemma rx_findall_substr: "m \<in> set (rx_findall ci r s) \<Longrightarrow> is_substr m s"
  by (simp add: rx_findall_def rx_findall_from_substr)

lemma insert_image_fold:
  "set (foldl (\<lambda>acc m. List.insert (f m) acc) acc0 xs) = set acc0 \<union> f ` set xs"
  by (induction xs arbitrary: acc0) auto

lemma pattern_fold_set:
  "set (foldl (\<lambda>acc pattern. foldl (\<lambda>acc m. List.insert (f m) acc) acc (g pattern)) acc0 ps)
     = set acc0 \<union> (\<Union>pattern \<in> set ps. f ` set (g pattern))"
  by (induction ps arbitrary: acc0) (auto simp: insert_image_fold)

lemma set_extract_skills_no_entities:
  "set (extract_skills [] t)
     = (\<Union>pattern \<in> set skill_patterns. py_title ` set (rx_findall False pattern (py_lower t)))"
  by (simp add: extract_skills_def Let_def pattern_fold_set)

text \<open>
  C2 (as the sources have it). The scorer and the resume parser keep different
  vocabularies and match differently (substrings of the lowered text against
  word-bounded, title-cased pattern matches). What holds for every text: a skill found
  by the parser's skill-pattern pass whose lowered form is in the scorer's vocabulary is,
  in that lowered form, among the skills the scorer extracts.
\<close>

theorem pattern_skill_in_vocabulary:
  assumes S: "S \<in> set (extract_skills [] t)" and voc: "py_lower S \<in> set tech_skills"
  shows "py_lower S \<in> set (extract_skills_from_text t)"
proof -
  from S obtain pattern m where m: "m \<in> set (rx_findall False pattern (py_lower t))"
    and Sm: "S = py_title m"
    by (auto simp: set_extract_skills_no_entities)
  from m have sub: "is_substr m (py_lower t)" by (rule rx_findall_substr)
  then have "py_lower m = m" by (rule substr_of_lowered)
  with Sm have "py_lower S = m" by (simp add: py_lower_title)
  with sub voc show ?thesis by (simp add: set_extract_skills_from_text)
qed

lemma prefix_take_length:
  "prefix (map f w) (map f (take (length w) s)) \<longleftrightarrow> prefix (map f w) (map f s)"
proof
  assume "prefix (map f w) (map f (take (length w) s))"
  moreover have "prefix (map f (take (length w) s)) (map f s)"
    by (simp add: take_is_prefix flip: take_map)
  ultimately show "prefix (map f w) (map f s)" by (rule prefix_order.trans)
next
  assume "prefix (map f w) (map f s)"
  then obtain zs where "map f s = map f w @ zs" by (auto simp: prefix_def)
  then have "take (length w) (map f s) = map f w" by simp
  then show "prefix (map f w) (map f (take (length w) s))" by (simp add: take_map)
qed

lemma lit_at_ci: "lit_at True kw s \<longleftrightarrow> prefix (py_lower kw) (py_lower s)"
  by (simp add: lit_at_def py_lower_def prefix_take_length)

lemma lit_seq_no_match:
  "\<not> is_substr (py_lower kw) (py_lower s) \<Longrightarrow> rx_search_from True (Seq (Lit kw) r) p s = None"
proof (induction s arbitrary: p)
  case Nil
  then show ?case by (simp add: lit_at_ci py_lower_def)
next
  case (Cons c cs)
  then have "\<not> prefix (py_lower kw) (py_lower (c # cs))" and "\<not> is_substr (py_lower kw) (py_lower cs)"
    by (simp_all add: py_lower_def)
  with Cons.IH show ?case by (simp add: lit_at_ci)
qed

lemma summary_keywords_lower: "list_all (\<lambda>kw. py_lower kw = kw) summary_keywords"
  by code_simp

lemma first_match_none:
  "no_summary_header text \<Longrightarrow> first_match summary_patterns text = None"
  using summary_keywords_lower
  by (simp add: no_summary_header_def summary_patterns_def summary_keywords_def
        section_pattern_def rx_search_def lit_seq_no_match)

text \<open>
  C4 (as the sources have it). When no summary keyword occurs in the text, the extracted
  summary is made of those of the first three lines of the document whose stripped
  length exceeds ten, joined by newlines.
\<close>

theorem extract_summary_fallback_eq:
  "no_summary_header text \<Longrightarrow>
   extract_summary text =
     py_join ''\<newline>'' (filter (\<lambda>line. 10 < length (py_strip line)) (take 3 (split_lines text)))"
  by (simp add: extract_summary_def first_match_none)

theorem extract_summary_fallback_eq_witness:
  "no_summary_header ''   first line is long\<newline>short\<newline>third line is long too\<newline>fourth line is long''
   \<and> extract_summary ''   first line is long\<newline>short\<newline>third line is long too\<newline>fourth line is long''
       = ''   first line is long\<newline>third line is long too''"
proof -
  have h: "no_summary_header
             ''   first line is long\<newline>short\<newline>third line is long too\<newline>fourth line is long''"
    by code_simp
  have v: "py_join ''\<newline>'' (filter (\<lambda>line. 10 < length (py_strip line))
             (take 3 (split_lines
                ''   first line is long\<newline>short\<newline>third line is long too\<newline>fourth line is long'')))
           = ''   first line is long\<newline>third line is long too''"
    by code_simp
  show ?thesis using extract_summary_fallback_eq [OF h] h v by simp
qed

text \<open>
  C4 (as the specification words it). The text below has no summary keyword and its only
  line longer than ten characters is the fourth: the first three non-trivial lines of
  the document are that line, but the parser looks at the first three lines only and
  returns the empty string.
\<close>

theorem extract_summary_fallback_counterexample:
  "no_summary_header ''a\<newline>b\<newline>c\<newline>this line is long enough''
   \<and> extract_summary ''a\<newline>b\<newline>c\<newline>this line is long enough'' = []
   \<and> spec_summary_fallback ''a\<newline>b\<newline>c\<newline>this line is long enough''
       = ''this line is long enough''"
  by code_simp

theorem pattern_skill_in_vocabulary_witness:
  "''Python'' \<in> set (extract_skills [] ''python and swift'')
   \<and> py_lower ''Python'' \<in> set tech_skills
   \<and> py_lower ''Python'' \<in> set (extract_skills_from_text ''python and swift'')"
proof -
  have a: "''Python'' \<in> set (extract_skills [] ''python and swift'')" by code_simp
  have b: "py_lower ''Python'' \<in> set tech_skills" by code_simp
  show ?thesis using pattern_skill_in_vocabulary [OF a b] a b by simp
qed

text \<open>
  C2 (as the specification words it). On the text \<open>swift\<close> the scorer extracts nothing and
  the parser's pattern pass extracts \<open>Swift\<close>: the two skill sets differ.
\<close>

theorem skill_sets_differ_counterexample:
  "set (extract_skills_from_text ''swift'') = {}
   \<and> set (extract_skills [] ''swift'') = {''Swift''}"
  by code_simp

subsection \<open>The text normalizer\<close>

text \<open>
  C7. The normalizer is meant to leave no run of two or more whitespace characters. It
  collapses the runs first and deletes the characters outside the whitelist afterwards,
  so the blanks on both sides of a deleted character meet: \<open>a @ b\<close> becomes \<open>a\<close>, two
  blanks, \<open>b\<close>.
\<close>

theorem clean_text_leaves_double_blank:
  "clean_text ''a @ b'' = ''a  b''"
  by code_simp

subsection \<open>Totality of the scorer, the suggestions and the rewrite\<close>

lemma py_index_first: "xs \<noteq> [] \<Longrightarrow> py_index xs 0 = Some (hd xs)"
  by (cases xs) (simp_all add: py_index_def)

lemma optimize_summary_Some: "\<exists>s. optimize_summary x jd = Some s \<and> s \<noteq> []"
proof (cases "x = []")
  case True
  then show ?thesis by (simp add: optimize_summary_def fallback_summary_def)
next
  case False
  then show ?thesis
    by (simp add: optimize_summary_def py_index_first Let_def)
qed

lemma region_lookup_Some: "\<exists>info. region_lookup region = Some info"
  by (simp add: region_lookup_def regional_changes_def)

lemma optimize_resume_Some: "\<exists>q. optimize_resume p jd region = Some q"
proof -
  obtain s where s: "optimize_summary (summary p) jd = Some s"
    using optimize_summary_Some by blast
  obtain info where i: "region_lookup region = Some info"
    using region_lookup_Some by blast
  show ?thesis
    by (simp add: optimize_resume_def s i apply_regional_formatting_def)
qed

lemma suggestion_caps:
  "length (sg_skills (get_suggestions p jd)) \<le> 5
   \<and> length (sg_keywords (get_suggestions p jd)) \<le> 10
   \<and> length (sg_bullet_points (get_suggestions p jd)) \<le> 5"
  by (simp add: get_suggestions_def suggest_skills_def suggest_keywords_def
        suggest_bullet_point_improvements_def Let_def)

text \<open>
  C8. For every profile, job description and region, the scorer, the summary rewrite and
  the resume rewrite return a result: the divisions and the first-element accesses they
  contain, which are the only operations of the core that can raise, never do, since
  every divisor is non-zero and every indexed text or list is non-empty where it is
  indexed. The suggestion engine contains no operation that can raise and no unbounded
  loop; its result respects the caps of 5 skills, 10 keywords and 5 bullet rewrites.
\<close>

theorem core_operations_total:
  "(\<exists>r. calculate_score p jd = Some r)
   \<and> (\<exists>s. optimize_summary (summary p) jd = Some s \<and> s \<noteq> [])
   \<and> (\<exists>q. optimize_resume p jd region = Some q)
   \<and> length (sg_skills (get_suggestions p jd)) \<le> 5
   \<and> length (sg_keywords (get_suggestions p jd)) \<le> 10
   \<and> length (sg_bullet_points (get_suggestions p jd)) \<le> 5"
  using calculate_score_Some [of p jd] optimize_summary_Some [of "summary p" jd]
    optimize_resume_Some [of p jd region] suggestion_caps [of p jd]
  by simp

subsection \<open>The optimizer writes to its own objects only\<close>

lemma prefix_update_fresh:
  assumes "prefix h0 h" and "length h0 \<le> a"
  shows "prefix h0 (h[a := obj])"
proof -
  from assms(1) obtain zs where h: "h = h0 @ zs" by (auto simp: prefix_def)
  have "(h0 @ zs)[a := obj] = h0 @ zs[a - length h0 := obj]"
    using assms(2) by (simp add: list_update_append)
  then show ?thesis by (simp add: h)
qed

lemma alloc_frame:
  assumes "alloc h obj = (a, h')" and "prefix h0 h"
  shows "prefix h0 h' \<and> length h0 \<le> a"
proof -
  from assms(1) have "a = length h" "h' = h @ [obj]" by (simp_all add: alloc_def)
  moreover have "length h0 \<le> length h" using assms(2) by (rule prefix_length_le)
  moreover have "prefix h0 (h @ [obj])" using assms(2) by (rule prefix_prefix)
  ultimately show ?thesis by simp
qed

lemma dict_copy_frame:
  "dict_copy h a = Some (b, h') \<Longrightarrow> prefix h0 h \<Longrightarrow> prefix h0 h' \<and> length h0 \<le> b"
  by (auto simp: dict_copy_def bind_eq_Some_conv dest: alloc_frame)

lemma list_copy_frame:
  "list_copy h a = Some (b, h') \<Longrightarrow> prefix h0 h \<Longrightarrow> prefix h0 h' \<and> length h0 \<le> b"
  by (auto simp: list_copy_def bind_eq_Some_conv dest: alloc_frame)

lemma list_append_frame:
  "list_append h a v = Some h' \<Longrightarrow> prefix h0 h \<Longrightarrow> length h0 \<le> a \<Longrightarrow> prefix h0 h'"
  by (auto simp: list_append_def bind_eq_Some_conv intro: prefix_update_fresh)

lemma dict_assign_frame:
  "dict_assign h a k v = Some h' \<Longrightarrow> prefix h0 h \<Longrightarrow> length h0 \<le> a \<Longrightarrow> prefix h0 h'"
  by (auto simp: dict_assign_def bind_eq_Some_conv intro: prefix_update_fresh)

lemma list_extend_frame:
  "list_extend h a vs = Some h' \<Longrightarrow> prefix h0 h \<Longrightarrow> length h0 \<le> a \<Longrightarrow> prefix h0 h'"
proof (induction vs arbitrary: h)
  case Nil
  then show ?case by simp
next
  case (Cons v vs)
  from Cons.prems(1) obtain h1 where
    1: "list_append h a v = Some h1" and 2: "list_extend h1 a vs = Some h'"
    by (auto simp: bind_eq_Some_conv)
  from 1 Cons.prems(2,3) have "prefix h0 h1" by (rule list_append_frame)
  with 2 Cons.prems(3) show ?case by (intro Cons.IH)
qed

lemma append_bullets_frame:
  "append_bullets h bl bs = Some h' \<Longrightarrow> prefix h0 h \<Longrightarrow> length h0 \<le> bl \<Longrightarrow> prefix h0 h'"
proof (induction bs arbitrary: h)
  case Nil
  then show ?case by simp
next
  case (Cons b bs)
  from Cons.prems(1) obtain bullet h1 where
    1: "list_append h bl (Str (optimize_bullet bullet)) = Some h1"
    and 2: "append_bullets h1 bl bs = Some h'"
    by (auto simp: bind_eq_Some_conv)
  from 1 Cons.prems(2,3) have "prefix h0 h1" by (rule list_append_frame)
  with 2 Cons.prems(3) show ?case by (intro Cons.IH)
qed

lemma optimize_jobs_frame:
  "optimize_jobs h oe js = Some h' \<Longrightarrow> prefix h0 h \<Longrightarrow> length h0 \<le> oe \<Longrightarrow> prefix h0 h'"
proof (induction js arbitrary: h)
  case Nil
  then show ?case by simp
next
  case (Cons j js)
  from Cons.prems(1) obtain job oj h1 ob h2 bullets h3 h4 h5 where
    c: "dict_copy h job = Some (oj, h1)" and
    a: "alloc h1 (PList []) = (ob, h2)" and
    b: "append_bullets h2 ob bullets = Some h3" and
    d: "dict_assign h3 oj ''description'' (Ref ob) = Some h4" and
    l: "list_append h4 oe (Ref oj) = Some h5" and
    r: "optimize_jobs h5 oe js = Some h'"
    by (auto simp: bind_eq_Some_conv alloc_def)
  from c Cons.prems(2) have 1: "prefix h0 h1" "length h0 \<le> oj"
    using dict_copy_frame by blast+
  from a 1(1) have 2: "prefix h0 h2" "length h0 \<le> ob"
    using alloc_frame by blast+
  from b 2 have 3: "prefix h0 h3" by (rule append_bullets_frame)
  from d 3 1(2) have 4: "prefix h0 h4" by (rule dict_assign_frame)
  from l 4 Cons.prems(3) have 5: "prefix h0 h5" by (rule list_append_frame)
  from r 5 Cons.prems(3) show ?case by (rule Cons.IH)
qed

lemma optimize_experience_store_frame:
  assumes "optimize_experience_store h e = Some (oe, h')" and "prefix h0 h"
  shows "prefix h0 h' \<and> length h0 \<le> oe"
proof -
  from assms(1) obtain h1 jobs where
    a: "alloc h (PList []) = (oe, h1)" and
    j: "optimize_jobs h1 oe jobs = Some h'"
    by (auto simp: optimize_experience_store_def bind_eq_Some_conv alloc_def)
  from a assms(2) have 1: "prefix h0 h1" "length h0 \<le> oe"
    using alloc_frame by blast+
  from j 1 have "prefix h0 h'" by (rule optimize_jobs_frame)
  with 1(2) show ?thesis by simp
qed

lemma enhance_skills_store_frame:
  assumes "enhance_skills_store h cur jd = Some (us, h')" and "prefix h0 h"
  shows "prefix h0 h' \<and> length h0 \<le> us"
proof -
  from assms(1) obtain current_skills es h1 h2 enhanced h3 where
    c: "list_copy h cur = Some (es, h1)" and
    x: "(if jd \<noteq> [] then list_extend h1 es (map Str (suggest_skills current_skills jd))
         else Some h1) = Some h2" and
    a: "alloc h2 (PList []) = (us, h3)" and
    l: "list_extend h3 us (map Str (unique_skills [] enhanced)) = Some h'"
    by (auto simp: enhance_skills_store_def bind_eq_Some_conv alloc_def)
  from c assms(2) have 1: "prefix h0 h1" "length h0 \<le> es"
    using list_copy_frame by blast+
  from x 1 have 2: "prefix h0 h2"
    by (auto split: if_splits intro: list_extend_frame)
  from a 2 have 3: "prefix h0 h3" "length h0 \<le> us"
    using alloc_frame by blast+
  from l 3 have "prefix h0 h'" by (rule list_extend_frame)
  with 3(2) show ?thesis by simp
qed

lemma alloc_assign_frame:
  assumes "dict_assign (h @ [obj]) rd k v = Some h'" and "prefix h0 h" and "length h0 \<le> rd"
  shows "prefix h0 h'"
proof -
  have "prefix h0 (h @ [obj])" using assms(2) by (rule prefix_prefix)
  with assms(1) show ?thesis using assms(3) by (rule dict_assign_frame)
qed

lemma apply_regional_formatting_store_frame:
  assumes "apply_regional_formatting_store h rd region = Some (r, h')"
    and "prefix h0 h" and "length h0 \<le> rd"
  shows "prefix h0 h' \<and> r = rd"
  using assms
  by (auto simp: apply_regional_formatting_store_def bind_eq_Some_conv alloc_def
        intro: alloc_assign_frame)

text \<open>Whatever the store, the writes of a call that returns go to new objects.\<close>

lemma optimize_resume_store_writes_fresh:
  assumes "optimize_resume_store h parsed_data jd region = Some (r, h')"
  shows "length h \<le> r \<and> r < length h' \<and> take (length h) h' = h"
proof -
  from assms obtain opt h1 ns h2 el ne h3 h4 sl nsk h5 h6 where
    c: "dict_copy h parsed_data = Some (opt, h1)" and
    s: "dict_assign h1 opt ''summary'' (Str ns) = Some h2" and
    e: "optimize_experience_store h2 el = Some (ne, h3)" and
    ea: "dict_assign h3 opt ''experience'' (Ref ne) = Some h4" and
    k: "enhance_skills_store h4 sl jd = Some (nsk, h5)" and
    ka: "dict_assign h5 opt ''skills'' (Ref nsk) = Some h6" and
    f: "apply_regional_formatting_store h6 opt region = Some (r, h')"
    by (auto simp: optimize_resume_store_def bind_eq_Some_conv)
  have 0: "prefix h h" by simp
  from c 0 have 1: "prefix h h1" "length h \<le> opt" using dict_copy_frame by blast+
  from s 1 have 2: "prefix h h2" by (rule dict_assign_frame)
  from e 2 have 3: "prefix h h3" using optimize_experience_store_frame by blast
  from ea 3 1(2) have 4: "prefix h h4" by (rule dict_assign_frame)
  from k 4 have 5: "prefix h h5" using enhance_skills_store_frame by blast
  from ka 5 1(2) have 6: "prefix h h6" by (rule dict_assign_frame)
  from f 6 1(2) have 7: "prefix h h'" "r = opt"
    using apply_regional_formatting_store_frame by blast+
  from f have "r < length h'"
    by (auto simp: apply_regional_formatting_store_def dict_assign_def get_dict_def
          bind_eq_Some_conv alloc_def split: if_splits)
  moreover from 7(1) have "take (length h) h' = h"
    by (auto simp: prefix_def)
  ultimately show ?thesis using 1(2) 7(2) by simp
qed

subsection \<open>The optimizer returns on a store that holds a resume\<close>

lemma nth_prefix: "prefix h0 h \<Longrightarrow> a < length h0 \<Longrightarrow> h ! a = h0 ! a"
  by (auto simp: prefix_def nth_append)

lemma get_dict_less: "get_dict h a = Some kvs \<Longrightarrow> a < length h"
  by (simp add: get_dict_def split: if_splits)

lemma get_list_less: "get_list h a = Some vs \<Longrightarrow> a < length h"
  by (simp add: get_list_def split: if_splits)

lemma get_dict_prefix: "prefix h0 h \<Longrightarrow> get_dict h0 a = Some kvs \<Longrightarrow> get_dict h a = Some kvs"
  using prefix_length_le [of h0 h] nth_prefix [of h0 h a]
  by (auto simp: get_dict_def split: if_splits)

lemma get_list_prefix: "prefix h0 h \<Longrightarrow> get_list h0 a = Some vs \<Longrightarrow> get_list h a = Some vs"
  using prefix_length_le [of h0 h] nth_prefix [of h0 h a]
  by (auto simp: get_list_def split: if_splits)

lemma get_list_update_same: "a < length h \<Longrightarrow> get_list (h[a := PList vs]) a = Some vs"
  by (simp add: get_list_def)

lemma get_dict_update_same: "a < length h \<Longrightarrow> get_dict (h[a := Dict kvs]) a = Some kvs"
  by (simp add: get_dict_def)

lemma get_list_update_other: "a \<noteq> b \<Longrightarrow> get_list (h[a := obj]) b = get_list h b"
  by (simp add: get_list_def)

lemma get_dict_update_other: "a \<noteq> b \<Longrightarrow> get_dict (h[a := obj]) b = get_dict h b"
  by (simp add: get_dict_def)

lemma get_list_new: "get_list (h @ [PList vs]) (length h) = Some vs"
  by (simp add: get_list_def)

lemma get_dict_new: "get_dict (h @ [Dict kvs]) (length h) = Some kvs"
  by (simp add: get_dict_def)

lemma list_append_Some:
  "get_list h a = Some vs \<Longrightarrow> list_append h a v = Some (h[a := PList (vs @ [v])])"
  by (simp add: list_append_def)

lemma list_extend_Some:
  "get_list h a = Some old \<Longrightarrow> list_extend h a vs = Some (h[a := PList (old @ vs)])"
proof (induction vs arbitrary: h old)
  case Nil
  then have "h ! a = PList old"
    by (auto simp: get_list_def split: if_splits pyobj.splits)
  then have "h[a := PList old] = h" by (metis list_update_id)
  then show ?case by simp
next
  case (Cons v vs)
  from Cons.prems have a: "a < length h" by (rule get_list_less)
  then have "get_list (h[a := PList (old @ [v])]) a = Some (old @ [v])"
    by (rule get_list_update_same)
  then have "list_extend (h[a := PList (old @ [v])]) a vs
               = Some ((h[a := PList (old @ [v])])[a := PList ((old @ [v]) @ vs)])"
    by (rule Cons.IH)
  then show ?case by (simp add: list_append_Some [OF Cons.prems])
qed

lemma append_bullets_Some:
  "get_list h bl = Some old \<Longrightarrow> those (map as_str bs) = Some strs \<Longrightarrow>
   append_bullets h bl bs
     = Some (h[bl := PList (old @ map (\<lambda>s. Str (optimize_bullet s)) strs)])"
proof (induction bs arbitrary: h old strs)
  case Nil
  then have "h ! bl = PList old" and "strs = []"
    by (auto simp: get_list_def split: if_splits pyobj.splits)
  then have "h[bl := PList old] = h" and "strs = []" by (metis list_update_id)+
  then show ?case by simp
next
  case (Cons b bs)
  from Cons.prems(2) obtain s rest where
    b: "as_str b = Some s" and rest: "those (map as_str bs) = Some rest" and strs: "strs = s # rest"
    by (auto split: option.splits)
  from Cons.prems(1) have a: "bl < length h" by (rule get_list_less)
  then have "get_list (h[bl := PList (old @ [Str (optimize_bullet s)])]) bl
               = Some (old @ [Str (optimize_bullet s)])"
    by (rule get_list_update_same)
  from Cons.IH [OF this rest] show ?case
    by (simp add: b strs list_append_Some [OF Cons.prems(1)])
qed

lemma dict_assign_Some:
  "get_dict h a = Some kvs \<Longrightarrow> dict_assign h a k v = Some (h[a := Dict (dict_put kvs k v)])"
  by (simp add: dict_assign_def)

lemma dict_copy_Some:
  "get_dict h a = Some kvs \<Longrightarrow> dict_copy h a = Some (length h, h @ [Dict kvs])"
  by (simp add: dict_copy_def alloc_def)

lemma get_strings_Some:
  "get_strings h d \<noteq> None \<Longrightarrow> \<exists>vs strs. get_list h d = Some vs \<and> those (map as_str vs) = Some strs"
  by (auto simp: get_strings_def bind_eq_Some_conv)

lemma wf_job_cases:
  assumes "wf_job h0 j"
  shows "\<exists>job items bs strs.
    j = Ref job \<and> get_dict h0 job = Some items
    \<and> (\<forall>h. prefix h0 h \<longrightarrow>
           (case map_of items ''description'' of
              Some v \<Rightarrow> do { d \<leftarrow> as_ref v; get_list h d }
            | None \<Rightarrow> Some []) = Some bs)
    \<and> those (map as_str bs) = Some strs"
proof -
  from assms obtain job items where j: "j = Ref job" and items: "get_dict h0 job = Some items"
    by (auto simp: wf_job_def split: pyval.splits option.splits)
  show ?thesis
  proof (cases "map_of items ''description''")
    case None
    then have "\<forall>h. prefix h0 h \<longrightarrow>
           (case map_of items ''description'' of
              Some v \<Rightarrow> do { d \<leftarrow> as_ref v; get_list h d }
            | None \<Rightarrow> Some []) = Some []"
      by simp
    moreover have "those (map as_str []) = Some []" by simp
    ultimately show ?thesis using j items by blast
  next
    case (Some v)
    with assms j items obtain d where v: "v = Ref d" and s: "get_strings h0 d \<noteq> None"
      by (auto simp: wf_job_def split: pyval.splits)
    from s obtain vs strs where vs: "get_list h0 d = Some vs"
      and strs: "those (map as_str vs) = Some strs"
      using get_strings_Some by blast
    have "\<forall>h. prefix h0 h \<longrightarrow>
           (case map_of items ''description'' of
              Some v \<Rightarrow> do { d \<leftarrow> as_ref v; get_list h d }
            | None \<Rightarrow> Some []) = Some vs"
      using Some v vs by (simp add: as_ref_def get_list_prefix)
    then show ?thesis using strs j items by blast
  qed
qed

lemma optimize_jobs_Some:
  assumes "list_all (wf_job h0) js" and "prefix h0 h" and "length h0 \<le> oe"
    and "get_list h oe = Some old"
  shows "\<exists>h'. optimize_jobs h oe js = Some h'"
  using assms
proof (induction js arbitrary: h old)
  case Nil
  show ?case by simp
next
  case (Cons j js)
  from Cons.prems(1) have wj: "wf_job h0 j" and wjs: "list_all (wf_job h0) js" by simp_all
  from wj obtain job items bs strs where
    j: "j = Ref job" and items0: "get_dict h0 job = Some items" and
    desc: "\<forall>h. prefix h0 h \<longrightarrow>
           (case map_of items ''description'' of
              Some v \<Rightarrow> do { d \<leftarrow> as_ref v; get_list h d }
            | None \<Rightarrow> Some []) = Some bs" and
    strs: "those (map as_str bs) = Some strs"
    using wf_job_cases by blast
  define oj where "oj = length h"
  define ob where "ob = Suc (length h)"
  define h2 where "h2 = (h @ [Dict items]) @ [PList []]"
  define h3 where "h3 = h2[ob := PList ([] @ map (\<lambda>s. Str (optimize_bullet s)) strs)]"
  define h4 where "h4 = h3[oj := Dict (dict_put items ''description'' (Ref ob))]"
  define h5 where "h5 = h4[oe := PList (old @ [Ref oj])]"
  have oe: "oe < length h" using Cons.prems(4) by (rule get_list_less)
  have p2: "prefix h0 h2"
    unfolding h2_def using Cons.prems(2) by (simp add: prefix_prefix)
  have items: "get_dict h job = Some items"
    using Cons.prems(2) items0 by (rule get_dict_prefix)
  have copy: "dict_copy h job = Some (oj, h @ [Dict items])"
    unfolding oj_def using items by (rule dict_copy_Some)
  have items2: "get_dict h2 job = Some items"
    using p2 items0 by (rule get_dict_prefix)
  have bullets: "(case map_of items ''description'' of
              Some v \<Rightarrow> do { d \<leftarrow> as_ref v; get_list h2 d }
            | None \<Rightarrow> Some []) = Some bs"
    using p2 desc by blast
  have "get_list h2 ob = Some []"
    unfolding h2_def ob_def using get_list_new [of "h @ [Dict items]" "[]"] by simp
  then have ab: "append_bullets h2 ob bs = Some h3"
    unfolding h3_def using strs by (rule append_bullets_Some)
  have "get_dict h3 oj = Some items"
    unfolding h3_def h2_def ob_def oj_def by (simp add: get_dict_def nth_append)
  then have da: "dict_assign h3 oj ''description'' (Ref ob) = Some h4"
    unfolding h4_def by (rule dict_assign_Some)
  have "get_list h4 oe = get_list h oe"
    unfolding h4_def h3_def h2_def ob_def oj_def using oe
    by (simp add: get_list_def nth_append)
  with Cons.prems(4) have "get_list h4 oe = Some old" by simp
  then have la: "list_append h4 oe (Ref oj) = Some h5"
    unfolding h5_def by (rule list_append_Some)
  have len: "length h0 \<le> length h" using Cons.prems(2) by (rule prefix_length_le)
  have p5: "prefix h0 h5"
    unfolding h5_def h4_def h3_def
    using p2 Cons.prems(3) len
    by (auto simp: ob_def oj_def intro!: prefix_update_fresh)
  have "get_list h5 oe = Some (old @ [Ref oj])"
    unfolding h5_def h4_def h3_def h2_def using oe by (simp add: get_list_def)
  with wjs p5 Cons.prems(3) have "\<exists>h'. optimize_jobs h5 oe js = Some h'"
    by (rule Cons.IH)
  moreover have "optimize_jobs h oe (j # js) = optimize_jobs h5 oe js"
  proof -
    have ar: "as_ref j = Some job" by (simp add: j as_ref_def)
    have al: "alloc (h @ [Dict items]) (PList []) = (ob, h2)"
      by (simp add: alloc_def ob_def h2_def)
    show ?thesis using ar copy al items2 bullets ab da la by simp
  qed
  ultimately show ?case by simp
qed

lemma optimize_experience_store_Some:
  assumes "prefix h0 h" and "get_list h0 e = Some jobs" and "list_all (wf_job h0) jobs"
  shows "\<exists>oe h'. optimize_experience_store h e = Some (oe, h')"
proof -
  have p: "prefix h0 (h @ [PList []])" using assms(1) by (rule prefix_prefix)
  then have jobs: "get_list (h @ [PList []]) e = Some jobs"
    using assms(2) by (rule get_list_prefix)
  have "length h0 \<le> length h" using assms(1) by (rule prefix_length_le)
  with assms(3) p have "\<exists>h'. optimize_jobs (h @ [PList []]) (length h) jobs = Some h'"
    using get_list_new [of h "[]"] by (rule optimize_jobs_Some)
  then show ?thesis
    by (auto simp: optimize_experience_store_def alloc_def jobs)
qed

lemma those_strings_append:
  "those (map as_str vs) = Some strs \<Longrightarrow> those (map as_str (vs @ map Str ys)) = Some (strs @ ys)"
proof (induction vs arbitrary: strs)
  case Nil
  then show ?case by (induction ys) (simp_all add: as_str_def)
next
  case (Cons v vs)
  then show ?case by (auto split: option.splits)
qed

lemma enhance_skills_store_Some:
  assumes "prefix h0 h" and "get_strings h0 cur \<noteq> None"
  shows "\<exists>us h'. enhance_skills_store h cur jd = Some (us, h')"
proof -
  from assms(2) obtain vs strs where vs0: "get_list h0 cur = Some vs"
    and strs: "those (map as_str vs) = Some strs"
    using get_strings_Some by blast
  from assms(1) vs0 have vs: "get_list h cur = Some vs" by (rule get_list_prefix)
  have gs: "get_strings h cur = Some strs" by (simp add: get_strings_def vs strs)
  have lc: "list_copy h cur = Some (length h, h @ [PList vs])"
    by (simp add: list_copy_def vs alloc_def)
  define ys where "ys = (if jd \<noteq> [] then suggest_skills strs jd else [])"
  define h2 where "h2 = (h @ [PList vs])[length h := PList (vs @ map Str ys)]"
  have new: "get_list (h @ [PList vs]) (length h) = Some vs" by (rule get_list_new)
  have ext: "(if jd \<noteq> [] then list_extend (h @ [PList vs]) (length h)
                 (map Str (suggest_skills strs jd))
              else Some (h @ [PList vs])) = Some h2"
  proof (cases "jd = []")
    case True
    then have "h2 = h @ [PList vs]" by (simp add: h2_def ys_def)
    with True show ?thesis by simp
  next
    case False
    then show ?thesis
      using list_extend_Some [OF new, of "map Str (suggest_skills strs jd)"]
      by (simp add: h2_def ys_def)
  qed
  have gl2: "get_list h2 (length h) = Some (vs @ map Str ys)"
    by (simp add: h2_def get_list_def)
  have gs2: "get_strings h2 (length h) = Some (strs @ ys)"
    unfolding get_strings_def gl2 using those_strings_append [OF strs, of ys] by simp
  have "get_list (h2 @ [PList []]) (length h2) = Some []" by (rule get_list_new)
  then have le: "list_extend (h2 @ [PList []]) (length h2) (map Str (unique_skills [] (strs @ ys)))
              = Some ((h2 @ [PList []])[length h2 := PList ([] @ map Str (unique_skills [] (strs @ ys)))])"
    by (rule list_extend_Some)
  show ?thesis
    using gs lc ext gs2 le
    by (simp add: enhance_skills_store_def alloc_def)
qed

lemma apply_regional_formatting_store_Some:
  assumes "get_dict h rd = Some kvs"
  shows "\<exists>h'. apply_regional_formatting_store h rd region = Some (rd, h')"
proof -
  obtain info where i: "region_lookup region = Some info"
    using region_lookup_Some by blast
  have "prefix h (h @ [Dict [(''spelling'', Str (spelling info)),
                            (''date_format'', Str (date_format info))]])"
    by simp
  then have "get_dict (h @ [Dict [(''spelling'', Str (spelling info)),
                            (''date_format'', Str (date_format info))]]) rd = Some kvs"
    using assms by (rule get_dict_prefix)
  then show ?thesis
    by (simp add: apply_regional_formatting_store_def i alloc_def dict_assign_def)
qed

lemma wf_resume_parts:
  assumes "wf_resume h pd"
  shows "\<exists>items s e jobs sa.
     get_dict h pd = Some items
     \<and> map_of items ''summary'' = Some (Str s)
     \<and> map_of items ''experience'' = Some (Ref e)
     \<and> get_list h e = Some jobs \<and> list_all (wf_job h) jobs
     \<and> map_of items ''skills'' = Some (Ref sa)
     \<and> get_strings h sa \<noteq> None"
  using assms
  by (auto simp: wf_resume_def split: option.splits pyval.splits)

lemma optimize_resume_store_Some:
  assumes "wf_resume h pd"
  shows "\<exists>r h'. optimize_resume_store h pd jd region = Some (r, h')"
proof -
  from assms obtain items s e jobs sa where
    items: "get_dict h pd = Some items" and
    sm: "map_of items ''summary'' = Some (Str s)" and
    ex: "map_of items ''experience'' = Some (Ref e)" and
    jobs: "get_list h e = Some jobs" "list_all (wf_job h) jobs" and
    sk: "map_of items ''skills'' = Some (Ref sa)" and
    strs: "get_strings h sa \<noteq> None"
    using wf_resume_parts by blast
  define opt where "opt = length h"
  define h1 where "h1 = h @ [Dict items]"
  have c: "dict_copy h pd = Some (opt, h1)"
    unfolding opt_def h1_def using items by (rule dict_copy_Some)
  have p1: "prefix h h1" by (simp add: h1_def)
  have i1: "get_dict h1 pd = Some items" using p1 items by (rule get_dict_prefix)
  have g1: "dict_get h1 pd ''summary'' = Some (Str s)" by (simp add: dict_get_def i1 sm)
  obtain ns where ns: "optimize_summary s jd = Some ns"
    using optimize_summary_Some by blast
  have o1: "get_dict h1 opt = Some items" unfolding h1_def opt_def by (rule get_dict_new)
  define h2 where "h2 = h1[opt := Dict (dict_put items ''summary'' (Str ns))]"
  have a2: "dict_assign h1 opt ''summary'' (Str ns) = Some h2"
    unfolding h2_def using o1 by (rule dict_assign_Some)
  have p2: "prefix h h2" unfolding h2_def using p1 by (rule prefix_update_fresh) (simp add: opt_def)
  have i2: "get_dict h2 pd = Some items" using p2 items by (rule get_dict_prefix)
  have g2: "dict_get h2 pd ''experience'' = Some (Ref e)" by (simp add: dict_get_def i2 ex)
  have o2: "get_dict h2 opt = Some (dict_put items ''summary'' (Str ns))"
    unfolding h2_def using get_dict_less [OF o1] by (rule get_dict_update_same)
  obtain ne h3 where e3: "optimize_experience_store h2 e = Some (ne, h3)"
    using optimize_experience_store_Some [OF p2 jobs] by blast
  have p3: "prefix h h3" using optimize_experience_store_frame [OF e3 p2] by simp
  have "prefix h2 h3" using optimize_experience_store_frame [OF e3, of h2] by simp
  then have o3: "get_dict h3 opt = Some (dict_put items ''summary'' (Str ns))"
    using o2 by (rule get_dict_prefix)
  define d4 where "d4 = dict_put (dict_put items ''summary'' (Str ns)) ''experience'' (Ref ne)"
  define h4 where "h4 = h3[opt := Dict d4]"
  have a4: "dict_assign h3 opt ''experience'' (Ref ne) = Some h4"
    unfolding h4_def d4_def using o3 by (rule dict_assign_Some)
  have p4: "prefix h h4" unfolding h4_def using p3 by (rule prefix_update_fresh) (simp add: opt_def)
  have i4: "get_dict h4 pd = Some items" using p4 items by (rule get_dict_prefix)
  have g4: "dict_get h4 pd ''skills'' = Some (Ref sa)" by (simp add: dict_get_def i4 sk)
  have o4: "get_dict h4 opt = Some d4"
    unfolding h4_def using get_dict_less [OF o3] by (rule get_dict_update_same)
  obtain nsk h5 where e5: "enhance_skills_store h4 sa jd = Some (nsk, h5)"
    using enhance_skills_store_Some [OF p4 strs] by blast
  have "prefix h4 h5" using enhance_skills_store_frame [OF e5, of h4] by simp
  then have o5: "get_dict h5 opt = Some d4" using o4 by (rule get_dict_prefix)
  define h6 where "h6 = h5[opt := Dict (dict_put d4 ''skills'' (Ref nsk))]"
  have a6: "dict_assign h5 opt ''skills'' (Ref nsk) = Some h6"
    unfolding h6_def using o5 by (rule dict_assign_Some)
  have o6: "get_dict h6 opt = Some (dict_put d4 ''skills'' (Ref nsk))"
    unfolding h6_def using get_dict_less [OF o5] by (rule get_dict_update_same)
  obtain h' where f: "apply_regional_formatting_store h6 opt region = Some (opt, h')"
    using apply_regional_formatting_store_Some [OF o6] by blast
  have "optimize_resume_store h pd jd region = Some (opt, h')"
    using c g1 ns a2 g2 e3 a4 g4 e5 a6 f
    by (simp add: optimize_resume_store_def as_str_def as_ref_def)
  then show ?thesis by blast
qed

text \<open>
  C9. On every store that holds a parsed resume, \<open>optimize_resume\<close> returns; the address
  it returns is that of an object that did not exist before, and every object of the
  store it started from is unchanged: the dictionary of the input resume, its lists of
  skills, jobs, education and projects, the dictionary and the description list of every
  job. All its writes go to objects it has created itself.
\<close>

theorem optimize_resume_store_frame:
  assumes "wf_resume h parsed_data"
  shows "\<exists>r h'. optimize_resume_store h parsed_data jd region = Some (r, h')
           \<and> length h \<le> r \<and> r < length h' \<and> take (length h) h' = h"
proof -
  from assms obtain r h' where
    eq: "optimize_resume_store h parsed_data jd region = Some (r, h')"
    using optimize_resume_store_Some by blast
  from optimize_resume_store_writes_fresh [OF eq] eq show ?thesis by blast
qed

theorem optimize_resume_store_frame_witness:
  "wf_resume example_store 0
   \<and> (\<exists>r h'. optimize_resume_store example_store 0 ''python java'' ''UK'' = Some (r, h')
          \<and> length example_store \<le> r \<and> r < length h'
          \<and> take (length example_store) h' = example_store)"
proof -
  have w: "wf_resume example_store 0" by code_simp
  from optimize_resume_store_frame [OF w] w show ?thesis by blast
qed

end
